theory Spec2Isabelle
  imports Complex_Main "HOL-Library.AList"
begin

section \<open>Server-side Subscription of node-opcua (lib/server/subscription.js)\<close>

text \<open>
  A shallow embedding of \<^verbatim>\<open>lib/server/subscription.js\<close>. A method of the
  Subscription object becomes a function from the subscription (a record of its fields)
  to an outcome that carries the subscription as the method left it. JavaScript numbers
  are integers here (no NaN, no fractions) except the dead band value of a filter, which
  is a double: not a number, an infinity, or a real number. An exception does not roll back the fields written before it: a thrown
  outcome carries the subscription at the moment of the throw.
\<close>

subsection \<open>Outcomes: return, throw, no return\<close>

datatype failure = AssertionError | TypeError

datatype ('a, 's) outcome = Returned 'a 's | Threw failure 's | NoReturn

fun and_then :: "('a, 's) outcome \<Rightarrow> ('a \<Rightarrow> 's \<Rightarrow> ('b, 's) outcome) \<Rightarrow> ('b, 's) outcome" where
  "and_then (Returned v s) f = f v s"
| "and_then (Threw e s) f = Threw e s"
| "and_then NoReturn f = NoReturn"

text \<open>\<^verbatim>\<open>assert(cond)\<close> of better-assert, with assertions switched on (the default).\<close>

definition assert_that :: "bool \<Rightarrow> 's \<Rightarrow> (unit, 's) outcome" where
  "assert_that cond s = (if cond then Returned () s else Threw AssertionError s)"

text \<open>\<^verbatim>\<open>x || d\<close> on numbers: 0 (like an absent field) is falsy.\<close>

definition js_or :: "int \<Rightarrow> int \<Rightarrow> int" where
  "js_or x d = (if x = 0 then d else x)"

subsection \<open>Enumerations\<close>

datatype StatusCode =
    Good | BadNodeIdUnknown | BadNodeIdInvalid | BadAttributeIdInvalid
  | BadIndexRangeInvalid | BadDataEncodingInvalid | BadDataEncodingUnsupported
  | BadFilterNotAllowed | BadDeadbandFilterInvalid | BadMonitoredItemIdInvalid
  | BadSequenceNumberUnknown | BadTimeout

datatype SubscriptionState = CLOSED | CREATING | NORMAL | LATE | KEEPALIVE | TERMINATED

datatype MonitoringMode = Invalid | Disabled | Sampling | Reporting

datatype SubscriptionId = invalid_id | Id nat

subsection \<open>Notifications\<close>

text \<open>
  What a monitored item hands over is a MonitoredItemNotification or an EventFieldList;
  the payload is a number. A slot \<open>None\<close> is the \<^verbatim>\<open>undefined\<close> that
  \<^verbatim>\<open>shift()\<close> gives on an empty queue.
\<close>

datatype item_notification = MonitoredItemNotification nat | EventFieldList nat

datatype notification_data =
    DataChangeNotification "item_notification list"
  | EventNotificationList "item_notification list"
  | StatusChangeNotification StatusCode

record NotificationMessage =
  msg_sequenceNumber :: nat
  notificationData :: "notification_data list"

text \<open>An entry of the pending and of the sent queue (the publish time is left out).\<close>

record NotificationRecord =
  notification :: NotificationMessage
  start_tick :: nat
  sequenceNumber :: nat

subsection \<open>The collaborators the subscription calls\<close>

text \<open>
  Modelled from the spec: the Publish Engine (its code is not in this file). It holds the
  number of parked publish requests; \<^verbatim>\<open>send_notification_message\<close> consumes one;
  \<^verbatim>\<open>send_keep_alive_response\<close> answers a boolean of the engine's own choosing
  (\<open>keep_alive_reply\<close>) and consumes a request when it answers true.
\<close>

record PublishEngine =
  pendingPublishRequestCount :: nat
  keep_alive_reply :: bool
  has_on_tick :: bool

datatype effect =
    Emit_notification | Emit_perform_update | Emit_keepalive nat | Emit_expired
  | Emit_terminated | Emit_monitoredItem nat
  | Engine_on_tick
  | Engine_send_notification_message SubscriptionId nat "notification_data list" "nat list" bool
  | Engine_send_keep_alive_response SubscriptionId nat
  | SetInterval int | ClearInterval | SetImmediate_tick
  | Registry_register | Registry_unregister
  | Console_log
  | MonitoredItem_terminate nat | MonitoredItem_setMonitoringMode nat MonitoringMode

text \<open>
  Modelled from the spec: what the subscription reads of a node of the Address Space
  (lib/address\_space is not in this file): whether it is a Variable, its data type, its
  \<^verbatim>\<open>minimumSamplingInterval\<close>, what reading its MinimumSamplingInterval attribute
  gives (a status and a value), and the supertype check of its address space:
  \<open>isSupertypeOf node a b\<close> is \<^verbatim>\<open>findDataType(a).isSupertypeOf(findDataType(b))\<close>,
  which holds when the data type \<open>a\<close> is a subtype of \<open>b\<close>.
\<close>

record BaseNode =
  is_UAVariable :: bool
  dataType :: nat
  minimumSamplingInterval :: int
  MinimumSamplingInterval_attribute :: "StatusCode \<times> int"
  isSupertypeOf :: "nat \<Rightarrow> nat \<Rightarrow> bool"

datatype TimestampsToReturn = Source | Server | Both | Neither

text \<open>
  Modelled from the spec: a MonitoredItem (lib/server/monitored\_item is not in this
  file) is opaque but for its id, handles, sampling interval, queue size, monitoring
  mode, the batch of notifications it has ready (\<open>item_queue\<close>) and whether a
  sampling function has been installed on it.
\<close>

record MonitoredItem =
  item_monitoredItemId :: nat
  item_clientHandle :: nat
  item_samplingInterval :: int
  item_queueSize :: nat
  item_monitoringMode :: MonitoringMode
  item_timestampsToReturn :: TimestampsToReturn
  item_node :: "BaseNode option"
  item_queue :: "item_notification list"
  item_has_samplingFunc :: bool

record SubscriptionDiagnostics =
  modifyCount :: nat
  enableCount :: nat
  disableCount :: nat
  notificationsCount :: nat
  publishRequestCount :: nat
  dataChangeNotificationsCount :: nat
  eventNotificationsCount :: nat

subsection \<open>The Subscription\<close>

text \<open>
  \<open>sequence_number_generator\<close> is the number the generator issues next.
  \<open>timerId\<close> is \<open>Some p\<close> while the interval timer is armed with period \<open>p\<close>.
  \<open>monitoredItems\<close> is the object used as a map, as an association list.
  \<open>effects\<close> logs, oldest first, the calls that leave the subscription: events
  emitted, calls of the engine, of the timers, of the registry and of monitored items.
\<close>

record Subscription =
  publishEngine :: PublishEngine
  subscriptionId :: SubscriptionId
  priority :: int
  publishingInterval :: int
  maxKeepAliveCount :: int
  lifeTimeCount :: int
  maxNotificationsPerPublish :: int
  keep_alive_counter :: int
  life_time_counter :: int
  pending_notifications :: "NotificationRecord list"
  sent_notifications :: "NotificationRecord list"
  sequence_number_generator :: nat
  state :: SubscriptionState
  publishIntervalCount :: nat
  monitoredItems :: "(nat \<times> MonitoredItem) list"
  monitoredItemIdCounter :: nat
  publishingEnabled :: bool
  timerId :: "int option"
  subscriptionDiagnostics :: SubscriptionDiagnostics
  effects :: "effect list"

definition log_effect :: "effect \<Rightarrow> Subscription \<Rightarrow> Subscription" where
  "log_effect e s = s\<lparr>effects := effects s @ [e]\<rparr>"

subsection \<open>Adjusting the requested parameters\<close>

definition minimumPublishingInterval :: int where
  "minimumPublishingInterval = 100"

definition defaultPublishingInterval :: int where
  "defaultPublishingInterval = 100"

definition maximumPublishingInterval :: int where
  "maximumPublishingInterval = 1000 * 60 * 60 * 24 * 30"

definition adjust_publishing_interval :: "int \<Rightarrow> int" where
  "adjust_publishing_interval publishingInterval0 =
     (let p1 = js_or publishingInterval0 defaultPublishingInterval;
          p2 = max p1 minimumPublishingInterval;
          p3 = min p2 maximumPublishingInterval
      in p3)"

definition minimumMaxKeepAliveCount :: int where
  "minimumMaxKeepAliveCount = 2"

definition maximumMaxKeepAliveCount :: int where
  "maximumMaxKeepAliveCount = 12000"

definition adjust_maxKeepAliveCount :: "int \<Rightarrow> int" where
  "adjust_maxKeepAliveCount maxKeepAliveCount0 =
     (let k1 = js_or maxKeepAliveCount0 10;
          k2 = max k1 minimumMaxKeepAliveCount;
          k3 = min k2 maximumMaxKeepAliveCount
      in k3)"

definition adjust_lifeTimeCount :: "int \<Rightarrow> int \<Rightarrow> int" where
  "adjust_lifeTimeCount lifeTimeCount0 maxKeepAliveCount0 =
     (let l1 = js_or lifeTimeCount0 1;
          l2 = max l1 (maxKeepAliveCount0 * 3)
      in l2)"

definition adjust_publishinEnable :: "bool option \<Rightarrow> bool" where
  "adjust_publishinEnable publishingEnabled0 =
     (case publishingEnabled0 of None \<Rightarrow> True | Some b \<Rightarrow> b)"

definition adjust_maxNotificationsPerPublish :: "int \<Rightarrow> int" where
  "adjust_maxNotificationsPerPublish m = (if m \<ge> 0 then m else 0)"

subsection \<open>Counters\<close>

definition resetKeepAliveCounter :: "Subscription \<Rightarrow> Subscription" where
  "resetKeepAliveCounter s = s\<lparr>keep_alive_counter := 0\<rparr>"

definition increaseKeepAliveCounter :: "Subscription \<Rightarrow> Subscription" where
  "increaseKeepAliveCounter s = s\<lparr>keep_alive_counter := keep_alive_counter s + 1\<rparr>"

definition keepAliveCounterHasExpired :: "Subscription \<Rightarrow> bool" where
  "keepAliveCounterHasExpired s = (keep_alive_counter s \<ge> maxKeepAliveCount s)"

definition resetLifeTimeCounter :: "Subscription \<Rightarrow> Subscription" where
  "resetLifeTimeCounter s = s\<lparr>life_time_counter := 0\<rparr>"

definition increaseLifeTimeCounter :: "Subscription \<Rightarrow> Subscription" where
  "increaseLifeTimeCounter s = s\<lparr>life_time_counter := life_time_counter s + 1\<rparr>"

definition lifeTimeHasExpired :: "Subscription \<Rightarrow> (bool, Subscription) outcome" where
  "lifeTimeHasExpired s =
     and_then (assert_that (lifeTimeCount s > 0) s)
       (\<lambda>_ s. Returned (life_time_counter s \<ge> lifeTimeCount s) s)"

definition timeToExpiration :: "Subscription \<Rightarrow> int" where
  "timeToExpiration s = (lifeTimeCount s - life_time_counter s) * publishingInterval s"

definition resetLifeTimeAndKeepAliveCounters :: "Subscription \<Rightarrow> Subscription" where
  "resetLifeTimeAndKeepAliveCounters s = resetKeepAliveCounter (resetLifeTimeCounter s)"

subsection \<open>The timer\<close>

definition stop_timer :: "Subscription \<Rightarrow> Subscription" where
  "stop_timer s =
     (case timerId s of
        Some p \<Rightarrow> log_effect Registry_unregister (log_effect ClearInterval s\<lparr>timerId := None\<rparr>)
      | None \<Rightarrow> s)"

definition start_timer :: "Subscription \<Rightarrow> (unit, Subscription) outcome" where
  "start_timer s =
     and_then (assert_that (timerId s = None) s) (\<lambda>_ s.
       let s1 = s\<lparr>state := NORMAL\<rparr>;
           s2 = s1\<lparr>keep_alive_counter := maxKeepAliveCount s1\<rparr>
       in and_then (assert_that (publishingInterval s2 > 0) s2) (\<lambda>_ s3.
            Returned ()
              (log_effect Registry_register
                (log_effect (SetInterval (publishingInterval s3))
                   (s3\<lparr>timerId := Some (publishingInterval s3)\<rparr>)))))"

subsection \<open>Construction and modification\<close>

text \<open>
  The options of the constructor. A numeric option left out is written 0: every test
  the constructor makes on it (\<^verbatim>\<open>x || d\<close>, \<^verbatim>\<open>x >= 0\<close>) sends both the same way.
\<close>

record SubscriptionOptions =
  opt_publishEngine :: PublishEngine
  opt_id :: nat
  opt_priority :: int
  opt_publishingInterval :: int
  opt_maxKeepAliveCount :: int
  opt_lifeTimeCount :: int
  opt_publishingEnabled :: "bool option"
  opt_maxNotificationsPerPublish :: int

definition new_SubscriptionDiagnostics :: SubscriptionDiagnostics where
  "new_SubscriptionDiagnostics =
     \<lparr>modifyCount = 0, enableCount = 0, disableCount = 0, notificationsCount = 0,
      publishRequestCount = 0, dataChangeNotificationsCount = 0,
      eventNotificationsCount = 0\<rparr>"

definition new_Subscription :: "SubscriptionOptions \<Rightarrow> (unit, Subscription) outcome" where
  "new_Subscription options =
     (let maxKeepAliveCount1 = adjust_maxKeepAliveCount (opt_maxKeepAliveCount options);
          self =
            \<lparr>publishEngine = opt_publishEngine options,
             subscriptionId = (if opt_id options = 0 then invalid_id else Id (opt_id options)),
             priority = js_or (opt_priority options) 0,
             publishingInterval = adjust_publishing_interval (opt_publishingInterval options),
             maxKeepAliveCount = maxKeepAliveCount1,
             lifeTimeCount = adjust_lifeTimeCount (opt_lifeTimeCount options) maxKeepAliveCount1,
             maxNotificationsPerPublish =
               adjust_maxNotificationsPerPublish (opt_maxNotificationsPerPublish options),
             keep_alive_counter = 0,
             life_time_counter = 0,
             pending_notifications = [],
             sent_notifications = [],
             sequence_number_generator = 1,
             state = CREATING,
             publishIntervalCount = 0,
             monitoredItems = [],
             monitoredItemIdCounter = 0,
             publishingEnabled = adjust_publishinEnable (opt_publishingEnabled options),
             timerId = None,
             subscriptionDiagnostics = new_SubscriptionDiagnostics,
             effects = []\<rparr>
      in start_timer self)"

record ModifyParameters =
  requestedPublishingInterval :: int
  requestedLifetimeCount :: int
  requestedMaxKeepAliveCount :: int
  param_maxNotificationsPerPublish :: int
  param_priority :: int

definition modify :: "ModifyParameters \<Rightarrow> Subscription \<Rightarrow> (unit, Subscription) outcome" where
  "modify param s =
     (let s1 = s\<lparr>subscriptionDiagnostics :=
                  (subscriptionDiagnostics s)\<lparr>modifyCount := modifyCount (subscriptionDiagnostics s) + 1\<rparr>\<rparr>;
          requestedPublishingInterval1 = js_or (requestedPublishingInterval param) 0;
          requestedMaxKeepAliveCount1 = js_or (requestedMaxKeepAliveCount param) (maxKeepAliveCount s1);
          requestedLifetimeCount1 = js_or (requestedLifetimeCount param) (lifeTimeCount s1);
          s2 = s1\<lparr>publishingInterval := adjust_publishing_interval requestedPublishingInterval1\<rparr>;
          s3 = s2\<lparr>maxKeepAliveCount := adjust_maxKeepAliveCount requestedMaxKeepAliveCount1\<rparr>;
          s4 = s3\<lparr>lifeTimeCount := adjust_lifeTimeCount requestedLifetimeCount1 (maxKeepAliveCount s3)\<rparr>;
          s5 = s4\<lparr>maxNotificationsPerPublish := param_maxNotificationsPerPublish param\<rparr>;
          s6 = s5\<lparr>priority := param_priority param\<rparr>;
          s7 = resetLifeTimeAndKeepAliveCounters s6
      in start_timer (stop_timer s7))"

definition setPublishingMode :: "bool \<Rightarrow> Subscription \<Rightarrow> (StatusCode, Subscription) outcome" where
  "setPublishingMode publishingEnabled0 s =
     (let s1 = s\<lparr>publishingEnabled := publishingEnabled0\<rparr>;
          d = subscriptionDiagnostics s1;
          s2 = (if publishingEnabled s1
                then s1\<lparr>subscriptionDiagnostics := d\<lparr>enableCount := enableCount d + 1\<rparr>\<rparr>
                else s1\<lparr>subscriptionDiagnostics := d\<lparr>disableCount := disableCount d + 1\<rparr>\<rparr>)
      in Returned Good s2)"

subsection \<open>Sequence numbers\<close>

text \<open>
  Modelled from the spec: the SequenceNumberGenerator (lib/misc/sequence\_number\_generator
  is not in this file). \<^verbatim>\<open>next()\<close> returns a number and advances, the first number
  being 1; \<^verbatim>\<open>future()\<close> is the number \<^verbatim>\<open>next()\<close> would return, and advances nothing.
\<close>

definition get_next_sequence_number :: "Subscription \<Rightarrow> (nat, Subscription) outcome" where
  "get_next_sequence_number s =
     Returned (sequence_number_generator s)
       (s\<lparr>sequence_number_generator := sequence_number_generator s + 1\<rparr>)"

definition get_future_sequence_number :: "Subscription \<Rightarrow> nat" where
  "get_future_sequence_number s = sequence_number_generator s"

subsection \<open>The pending queue and the sent queue\<close>

definition pendingNotificationsCount :: "Subscription \<Rightarrow> nat" where
  "pendingNotificationsCount s = length (pending_notifications s)"

definition hasPendingNotifications :: "Subscription \<Rightarrow> bool" where
  "hasPendingNotifications s = (pendingNotificationsCount s > 0)"

definition sentNotificationsCount :: "Subscription \<Rightarrow> nat" where
  "sentNotificationsCount s = length (sent_notifications s)"

definition addNotificationMessage ::
  "notification_data list \<Rightarrow> Subscription \<Rightarrow> (unit, Subscription) outcome" where
  "addNotificationMessage notificationData0 s =
     and_then (assert_that (length notificationData0 = 1 \<or> length notificationData0 = 2) s) (\<lambda>_ s.
     and_then (get_next_sequence_number s) (\<lambda>seq s.
       let notification_message =
             \<lparr>msg_sequenceNumber = seq, notificationData = notificationData0\<rparr>
       in Returned ()
            (s\<lparr>pending_notifications := pending_notifications s @
                 [\<lparr>notification = notification_message,
                   start_tick = publishIntervalCount s,
                   sequenceNumber = msg_sequenceNumber notification_message\<rparr>]\<rparr>)))"

definition getMessageForSequenceNumber ::
  "nat \<Rightarrow> Subscription \<Rightarrow> (NotificationRecord option, Subscription) outcome" where
  "getMessageForSequenceNumber sequenceNumber0 s =
     (case find (\<lambda>e. sequenceNumber e = sequenceNumber0) (sent_notifications s) of
        None \<Rightarrow> Returned None s
      | Some notification_message \<Rightarrow>
          Returned (Some notification_message) (resetLifeTimeAndKeepAliveCounters s))"

definition popNotificationToSend :: "Subscription \<Rightarrow> (NotificationRecord, Subscription) outcome" where
  "popNotificationToSend s =
     and_then (assert_that (hasPendingNotifications s) s) (\<lambda>_ s.
       case pending_notifications s of
         [] \<Rightarrow> Threw TypeError s
       | notification_message # rest \<Rightarrow>
           Returned notification_message
             (resetLifeTimeAndKeepAliveCounters
               (s\<lparr>pending_notifications := rest,
                  sent_notifications := sent_notifications s @ [notification_message]\<rparr>)))"

definition notificationHasExpired :: "NotificationRecord \<Rightarrow> Subscription \<Rightarrow> bool" where
  "notificationHasExpired notification0 s =
     (int (start_tick notification0) + maxKeepAliveCount s < int (publishIntervalCount s))"

definition maxNotificationMessagesInQueue :: int where
  "maxNotificationMessagesInQueue = 100"

text \<open>
  \<^verbatim>\<open>maxNotificationMessagesInQueue <= self._sent_notifications\<close> compares a number
  with the array itself. JavaScript turns the array into a string, the join of its
  elements, and the string into a number: the empty array gives the empty string and so
  0; an array of records gives \<^verbatim>\<open>[object Object]\<close>, joined by commas, which is
  no number (NaN, here \<open>None\<close>), and every comparison with NaN is false.
\<close>

definition js_array_ToNumber :: "NotificationRecord list \<Rightarrow> int option" where
  "js_array_ToNumber arr = (if arr = [] then Some 0 else None)"

definition js_less_eq :: "int \<Rightarrow> int option \<Rightarrow> bool" where
  "js_less_eq x y = (case y of None \<Rightarrow> False | Some v \<Rightarrow> x \<le> v)"

text \<open>
  Inside the branch the array is called as a function
  (\<^verbatim>\<open>self._sent_notifications(0, ...)\<close>), which throws a TypeError.
\<close>

definition discardOldSentNotifications :: "Subscription \<Rightarrow> (unit, Subscription) outcome" where
  "discardOldSentNotifications s =
     (if js_less_eq maxNotificationMessagesInQueue (js_array_ToNumber (sent_notifications s))
      then Threw TypeError s
      else Returned () s)"

definition getSequenceNumbers :: "NotificationRecord list \<Rightarrow> nat list" where
  "getSequenceNumbers arr = map (\<lambda>e. msg_sequenceNumber (notification e)) arr"

definition getAvailableSequenceNumbers :: "Subscription \<Rightarrow> (nat list, Subscription) outcome" where
  "getAvailableSequenceNumbers s =
     (let availableSequenceNumbers = getSequenceNumbers (sent_notifications s);
          pendingSequenceNumbers = getSequenceNumbers (pending_notifications s)
      in Returned ([] @ availableSequenceNumbers @ pendingSequenceNumbers) s)"

text \<open>
  The callback given to \<^verbatim>\<open>_.find\<close> returns nothing, so every element is visited and
  \<open>foundIndex\<close> ends as the index of the last element with the sequence number, or -1.
\<close>

definition find_foundIndex :: "nat \<Rightarrow> NotificationRecord list \<Rightarrow> int" where
  "find_foundIndex sequenceNumber0 arr =
     fold (\<lambda>(index, e) foundIndex.
             if sequenceNumber e = sequenceNumber0 then int index else foundIndex)
       (enumerate 0 arr) (- 1)"

definition splice1 :: "nat \<Rightarrow> 'a list \<Rightarrow> 'a list" where
  "splice1 i arr = take i arr @ drop (i + 1) arr"

definition acknowledgeNotification :: "nat \<Rightarrow> Subscription \<Rightarrow> (StatusCode, Subscription) outcome" where
  "acknowledgeNotification sequenceNumber0 s =
     (let foundIndex = find_foundIndex sequenceNumber0 (sent_notifications s)
      in if foundIndex = - 1 then Returned BadSequenceNumberUnknown s
         else Returned Good
                (s\<lparr>sent_notifications := splice1 (nat foundIndex) (sent_notifications s)\<rparr>))"

subsection \<open>The monitored items of a subscription\<close>

text \<open>
  \<^verbatim>\<open>Object.keys\<close> lists each key of the object once, integer keys in ascending order.
\<close>

definition object_keys :: "(nat \<times> 'v) list \<Rightarrow> nat list" where
  "object_keys obj = sort (remdups (map fst obj))"

definition monitoredItemCount :: "Subscription \<Rightarrow> nat" where
  "monitoredItemCount s = length (object_keys (monitoredItems s))"

text \<open>
  \<^verbatim>\<open>monitoredItem.terminate()\<close> is a call into the item: it is logged with the key.
\<close>

definition removeMonitoredItem :: "nat \<Rightarrow> Subscription \<Rightarrow> (StatusCode, Subscription) outcome" where
  "removeMonitoredItem monitoredItemId0 s =
     (case map_of (monitoredItems s) monitoredItemId0 of
        None \<Rightarrow> Returned BadMonitoredItemIdInvalid s
      | Some monitoredItem \<Rightarrow>
          (let s1 = log_effect (MonitoredItem_terminate monitoredItemId0) s;
               s2 = s1\<lparr>monitoredItems := AList.delete monitoredItemId0 (monitoredItems s1)\<rparr>
           in Returned Good s2))"

text \<open>The \<^verbatim>\<open>keys.forEach\<close> of \<^verbatim>\<open>terminate\<close>.\<close>

fun remove_each :: "nat list \<Rightarrow> Subscription \<Rightarrow> (unit, Subscription) outcome" where
  "remove_each [] s = Returned () s"
| "remove_each (key # keys) s =
     and_then (removeMonitoredItem key s) (\<lambda>status s.
     and_then (assert_that (status = Good) s) (\<lambda>_ s. remove_each keys s))"

definition terminate :: "Subscription \<Rightarrow> (unit, Subscription) outcome" where
  "terminate s =
     (if state s = CLOSED then Returned () s
      else
        and_then (assert_that (state s \<noteq> CLOSED) s) (\<lambda>_ s.
        let s1 = stop_timer s;
            keys = object_keys (monitoredItems s1)
        in and_then (remove_each keys s1) (\<lambda>_ s2.
           and_then (assert_that (monitoredItemCount s2 = 0) s2) (\<lambda>_ s3.
           and_then (addNotificationMessage [StatusChangeNotification BadTimeout] s3) (\<lambda>_ s4.
             let s5 = s4\<lparr>state := CLOSED\<rparr>
             in Returned () (log_effect Emit_terminated s5))))))"

subsection \<open>Assembling notifications\<close>

text \<open>
  Modelled from the spec: \<^verbatim>\<open>extractMonitoredItemNotifications()\<close> hands over the
  notifications the item has ready and leaves the item with none.
\<close>

definition extractMonitoredItemNotifications ::
  "MonitoredItem \<Rightarrow> item_notification list \<times> MonitoredItem" where
  "extractMonitoredItemNotifications monitoredItem =
     (item_queue monitoredItem, monitoredItem\<lparr>item_queue := []\<rparr>)"

text \<open>The \<^verbatim>\<open>keys.forEach\<close> of \<^verbatim>\<open>collectNotificationData\<close>.\<close>

fun extract_each ::
  "nat list \<Rightarrow> item_notification list \<Rightarrow> Subscription
     \<Rightarrow> (item_notification list, Subscription) outcome" where
  "extract_each [] all_notifications s = Returned all_notifications s"
| "extract_each (key # keys) all_notifications s =
     (case map_of (monitoredItems s) key of
        None \<Rightarrow> Threw TypeError s
      | Some monitoredItem \<Rightarrow>
          (let (notifications, monitoredItem1) = extractMonitoredItemNotifications monitoredItem;
               s1 = s\<lparr>monitoredItems := AList.update key monitoredItem1 (monitoredItems s)\<rparr>
           in extract_each keys (all_notifications @ notifications) s1))"

text \<open>
  \<^verbatim>\<open>while (n) { chunk.push(queue.shift()); n--; }\<close>: it ends when \<open>n\<close> reaches 0,
  and never when \<open>n\<close> starts negative.
\<close>

partial_function (option) extract_chunk_while ::
  "int \<Rightarrow> item_notification list \<Rightarrow> item_notification option list
     \<Rightarrow> (item_notification option list \<times> item_notification list) option" where
  "extract_chunk_while n queue chunk_monitoredItems =
     (if n = 0 then Some (chunk_monitoredItems, queue)
      else (case queue of
              [] \<Rightarrow> extract_chunk_while (n - 1) [] (chunk_monitoredItems @ [None])
            | x # rest \<Rightarrow> extract_chunk_while (n - 1) rest (chunk_monitoredItems @ [Some x])))"

definition extract_notifications_chunk ::
  "item_notification list \<Rightarrow> int
     \<Rightarrow> (item_notification option list \<times> item_notification list) option" where
  "extract_notifications_chunk queue maxNotificationsPerPublish0 =
     (let n = (if maxNotificationsPerPublish0 = 0 then int (length queue)
               else min (int (length queue)) maxNotificationsPerPublish0)
      in extract_chunk_while n queue [])"

definition is_MonitoredItemNotification :: "item_notification option \<Rightarrow> bool" where
  "is_MonitoredItemNotification e =
     (case e of Some (MonitoredItemNotification v) \<Rightarrow> True | _ \<Rightarrow> False)"

definition is_EventFieldList :: "item_notification option \<Rightarrow> bool" where
  "is_EventFieldList e = (case e of Some (EventFieldList v) \<Rightarrow> True | _ \<Rightarrow> False)"

text \<open>One chunk made into the 1 or 2 notifications of a message; the asserts may fail.\<close>

definition chunk_notifications ::
  "item_notification option list \<Rightarrow> failure + notification_data list" where
  "chunk_notifications notifications_chunk =
     (let dataChangedNotificationData = filter is_MonitoredItemNotification notifications_chunk;
          eventNotificationListData = filter is_EventFieldList notifications_chunk
      in if length notifications_chunk
              \<noteq> length dataChangedNotificationData + length eventNotificationListData
         then Inl AssertionError
         else
           (let notifications1 =
                  (if dataChangedNotificationData \<noteq> []
                   then [DataChangeNotification (map the dataChangedNotificationData)] else []);
                notifications2 =
                  (if eventNotificationListData \<noteq> []
                   then notifications1 @ [EventNotificationList (map the eventNotificationListData)]
                   else notifications1)
            in if length notifications2 = 1 \<or> length notifications2 = 2
               then Inr notifications2 else Inl AssertionError))"

text \<open>\<^verbatim>\<open>while (all_notifications.length > 0) { ... }\<close>\<close>

partial_function (option) collect_while ::
  "item_notification list \<Rightarrow> int \<Rightarrow> notification_data list list
     \<Rightarrow> (failure + notification_data list list) option" where
  "collect_while all_notifications maxNotificationsPerPublish0 notificationsMessage =
     (if length all_notifications > 0
      then Option.bind (extract_notifications_chunk all_notifications maxNotificationsPerPublish0)
             (\<lambda>(notifications_chunk, rest).
                case chunk_notifications notifications_chunk of
                  Inl e \<Rightarrow> Some (Inl e)
                | Inr notifications \<Rightarrow>
                    collect_while rest maxNotificationsPerPublish0
                      (notificationsMessage @ [notifications]))
      else Some (Inr notificationsMessage))"

definition collectNotificationData ::
  "Subscription \<Rightarrow> (notification_data list list, Subscription) outcome" where
  "collectNotificationData s =
     and_then (extract_each (object_keys (monitoredItems s)) [] s) (\<lambda>all_notifications s.
       case collect_while all_notifications (maxNotificationsPerPublish s) [] of
         None \<Rightarrow> NoReturn
       | Some (Inl e) \<Rightarrow> Threw e s
       | Some (Inr notificationsMessage) \<Rightarrow> Returned notificationsMessage s)"

text \<open>The \<^verbatim>\<open>notificationData.forEach\<close> of \<^verbatim>\<open>prepareNotification\<close>.\<close>

fun add_each :: "notification_data list list \<Rightarrow> Subscription \<Rightarrow> (unit, Subscription) outcome" where
  "add_each [] s = Returned () s"
| "add_each (notificationMessage # rest) s =
     and_then (addNotificationMessage notificationMessage s) (\<lambda>_ s. add_each rest s)"

definition prepareNotification :: "Subscription \<Rightarrow> (unit, Subscription) outcome" where
  "prepareNotification s =
     (if pendingPublishRequestCount (publishEngine s) = 0 then Returned () s
      else and_then (collectNotificationData s) (\<lambda>notificationData s.
             add_each notificationData s))"

subsection \<open>Publishing and the tick\<close>

text \<open>
  Modelled from the spec: the two send operations of the Publish Engine. Each is logged;
  a message sent, and a keep-alive accepted, consume one parked publish request.
\<close>

definition consume_request :: "PublishEngine \<Rightarrow> PublishEngine" where
  "consume_request engine =
     engine\<lparr>pendingPublishRequestCount := pendingPublishRequestCount engine - 1\<rparr>"

definition send_notification_message ::
  "SubscriptionId \<Rightarrow> nat \<Rightarrow> notification_data list \<Rightarrow> nat list \<Rightarrow> bool
     \<Rightarrow> Subscription \<Rightarrow> Subscription" where
  "send_notification_message subscriptionId0 sequenceNumber0 notificationData0
       availableSequenceNumbers moreNotifications s =
     (log_effect
        (Engine_send_notification_message subscriptionId0 sequenceNumber0 notificationData0
           availableSequenceNumbers moreNotifications) s)
       \<lparr>publishEngine := consume_request (publishEngine s)\<rparr>"

definition send_keep_alive_response ::
  "SubscriptionId \<Rightarrow> nat \<Rightarrow> Subscription \<Rightarrow> (bool, Subscription) outcome" where
  "send_keep_alive_response subscriptionId0 future_sequence_number s =
     (let s1 = log_effect (Engine_send_keep_alive_response subscriptionId0 future_sequence_number) s
      in if keep_alive_reply (publishEngine s1)
         then Returned True (s1\<lparr>publishEngine := consume_request (publishEngine s1)\<rparr>)
         else Returned False s1)"

text \<open>
  The two \<^verbatim>\<open>instanceof\<close> tests are made on the NotificationMessage, which is neither
  a DataChangeNotification nor an EventNotificationList: neither counter moves.
\<close>

definition attempt_to_publish_notification :: "Subscription \<Rightarrow> (unit, Subscription) outcome" where
  "attempt_to_publish_notification s =
     and_then (assert_that (hasPendingNotifications s) s) (\<lambda>_ s.
       let s = log_effect Emit_notification s
       in if pendingPublishRequestCount (publishEngine s) > 0
          then
            (let subscriptionId0 = subscriptionId s
             in and_then (popNotificationToSend s) (\<lambda>popped s.
                let notificationMessage = notification popped;
                    d = subscriptionDiagnostics s;
                    s = s\<lparr>subscriptionDiagnostics := d\<lparr>notificationsCount := notificationsCount d + 1\<rparr>\<rparr>
                in and_then (if state s = CLOSED then Returned [] s
                             else getAvailableSequenceNumbers s) (\<lambda>availableSequenceNumbers s.
                   let moreNotifications = hasPendingNotifications s;
                       d = subscriptionDiagnostics s;
                       s = s\<lparr>subscriptionDiagnostics := d\<lparr>publishRequestCount := publishRequestCount d + 1\<rparr>\<rparr>;
                       s = send_notification_message subscriptionId0
                             (msg_sequenceNumber notificationMessage)
                             (notificationData notificationMessage)
                             availableSequenceNumbers moreNotifications s
                   in if state s = LATE \<or> state s = KEEPALIVE
                      then Returned () (s\<lparr>state := NORMAL\<rparr>)
                      else Returned () s)))
          else if state s = CLOSED then Returned () s
          else Returned () (s\<lparr>state := LATE\<rparr>))"

definition sendKeepAliveResponse :: "Subscription \<Rightarrow> (bool, Subscription) outcome" where
  "sendKeepAliveResponse s =
     (let future_sequence_number = get_future_sequence_number s
      in and_then (send_keep_alive_response (subscriptionId s) future_sequence_number s)
           (\<lambda>reply s.
              if reply then Returned True (log_effect (Emit_keepalive future_sequence_number) s)
              else Returned False s))"

definition process_subscription :: "Subscription \<Rightarrow> (unit, Subscription) outcome" where
  "process_subscription s =
     and_then (prepareNotification s) (\<lambda>_ s.
       if hasPendingNotifications s \<and> publishingEnabled s
       then
         and_then (attempt_to_publish_notification s) (\<lambda>_ s.
           if state s = NORMAL \<and> hasPendingNotifications s
           then Returned () (log_effect SetImmediate_tick s)
           else Returned () s)
       else
         (let s = increaseKeepAliveCounter s
          in if keepAliveCounterHasExpired s
             then
               and_then (sendKeepAliveResponse s) (\<lambda>sent s.
                 if sent then Returned () (resetLifeTimeAndKeepAliveCounters s)
                 else and_then (assert_that False s) (\<lambda>_ s.
                        Returned () (s\<lparr>state := LATE\<rparr>)))
             else Returned () s))"

definition tick :: "Subscription \<Rightarrow> (unit, Subscription) outcome" where
  "tick s =
     (let s = (if has_on_tick (publishEngine s) then log_effect Engine_on_tick s else s);
          s = s\<lparr>publishIntervalCount := publishIntervalCount s + 1\<rparr>;
          s = log_effect Emit_perform_update s
      in and_then (prepareNotification s) (\<lambda>_ s.
         let s = increaseLifeTimeCounter s
         in and_then (discardOldSentNotifications s) (\<lambda>_ s.
            and_then (lifeTimeHasExpired s) (\<lambda>expired s.
              if expired
              then (let s = log_effect Console_log s;
                        s = log_effect Emit_expired s
                    in terminate s)
              else if pendingPublishRequestCount (publishEngine s) = 0
                   then Returned () (s\<lparr>state := LATE\<rparr>)
                   else process_subscription s))))"

subsection \<open>Creating a monitored item\<close>

datatype AttributeId = INVALID | Value | EventNotifier | OtherAttribute nat

datatype DeadbandType = None_deadband | Absolute | Percent

text \<open>
  The dead band value is a JavaScript double: NaN, an infinity, or a number (every
  double that is a number is a real). \<^verbatim>\<open>x <= c\<close> and \<^verbatim>\<open>x >= c\<close> against a
  numeric constant are false when \<open>x\<close> is NaN.
\<close>

datatype js_double = NaN | NegativeInfinity | Finite real | PositiveInfinity

definition js_double_le :: "js_double \<Rightarrow> real \<Rightarrow> bool" where
  "js_double_le x c =
     (case x of NaN \<Rightarrow> False | NegativeInfinity \<Rightarrow> True
              | Finite r \<Rightarrow> r \<le> c | PositiveInfinity \<Rightarrow> False)"

definition js_double_ge :: "js_double \<Rightarrow> real \<Rightarrow> bool" where
  "js_double_ge x c =
     (case x of NaN \<Rightarrow> False | NegativeInfinity \<Rightarrow> False
              | Finite r \<Rightarrow> r \<ge> c | PositiveInfinity \<Rightarrow> True)"

text \<open>
  The three filters of subscription\_service: an EventFilter with its select clauses, a
  DataChangeFilter with its dead band type and value, an AggregateFilter.
\<close>

datatype MonitoringFilter =
    EventFilter "nat list"
  | DataChangeFilter DeadbandType js_double
  | AggregateFilter

datatype FilterResult = EventFilterResult "StatusCode list" | AggregateFilterResult

text \<open>
  \<open>indexRange_isValid\<close> is what \<^verbatim>\<open>itemToMonitor.indexRange.isValid()\<close> answers;
  \<open>dataEncoding_name\<close> is \<^verbatim>\<open>itemToMonitor.dataEncoding.name\<close>, \<open>None\<close> when null.
\<close>

record ReadValueId =
  nodeId :: nat
  attributeId :: AttributeId
  indexRange_isValid :: bool
  dataEncoding_name :: "string option"

record MonitoringParameters =
  clientHandle :: nat
  samplingInterval :: int
  filter' :: "MonitoringFilter option"
  queueSize :: nat

record MonitoredItemCreateRequest =
  itemToMonitor :: ReadValueId
  monitoringMode :: MonitoringMode
  requestedParameters :: MonitoringParameters

record MonitoredItemCreateResult =
  statusCode :: StatusCode
  monitoredItemId :: nat
  revisedSamplingInterval :: int
  revisedQueueSize :: nat
  filterResult :: "FilterResult option"

text \<open>\<^verbatim>\<open>findNode\<close> of the Address Space.\<close>

record AddressSpace =
  findNode :: "nat \<Rightarrow> BaseNode option"

text \<open>The node id of the data type Number.\<close>

definition Number :: nat where
  "Number = 26"

text \<open>
  What this file requires from modules that are not in it, as parameters:
  \<^verbatim>\<open>is_valid_dataEncoding\<close> (on the encoding's name), the two bounds
  \<^verbatim>\<open>MonitoredItem.minimumSamplingInterval\<close> and \<^verbatim>\<open>MonitoredItem.maximumSamplingInterval\<close>,
  the constructor \<^verbatim>\<open>new MonitoredItem(requestedParameters)\<close> (given the parameters,
  the id and the item to monitor written into them), what the owner's listener of the
  \<^verbatim>\<open>monitoredItem\<close> event does to the item, and \<^verbatim>\<open>checkSelectClauses\<close>.
\<close>

record Externals =
  is_valid_dataEncoding :: "string option \<Rightarrow> bool"
  MonitoredItem_minimumSamplingInterval :: int
  MonitoredItem_maximumSamplingInterval :: int
  new_MonitoredItem :: "MonitoringParameters \<Rightarrow> nat \<Rightarrow> ReadValueId \<Rightarrow> MonitoredItem"
  on_monitoredItem :: "MonitoredItem \<Rightarrow> MonitoredItem"
  checkSelectClauses :: "BaseNode \<Rightarrow> nat list \<Rightarrow> StatusCode list"

definition adjustSamplingInterval ::
  "Externals \<Rightarrow> int \<Rightarrow> BaseNode \<Rightarrow> Subscription \<Rightarrow> (int, Subscription) outcome" where
  "adjustSamplingInterval ext samplingInterval0 node s =
     and_then
       (if samplingInterval0 < 0 then Returned (publishingInterval s) s
        else if samplingInterval0 = 0 then
          (let dataValueSamplingInterval = MinimumSamplingInterval_attribute node
           in if fst dataValueSamplingInterval = Good
              then (let samplingInterval1 = snd dataValueSamplingInterval
                    in and_then
                         (assert_that (samplingInterval1 \<ge> 0
                            \<and> samplingInterval1 \<le> MonitoredItem_maximumSamplingInterval ext) s)
                         (\<lambda>_ s. Returned samplingInterval1 s))
              else Returned samplingInterval0 s)
        else if samplingInterval0 < MonitoredItem_minimumSamplingInterval ext
          then Returned (MonitoredItem_minimumSamplingInterval ext) s
        else if samplingInterval0 > MonitoredItem_maximumSamplingInterval ext
          then Returned (MonitoredItem_maximumSamplingInterval ext) s
        else Returned samplingInterval0 s)
       (\<lambda>samplingInterval2 s.
          let node_minimumSamplingInterval =
                (if minimumSamplingInterval node \<noteq> 0 then minimumSamplingInterval node else 0)
          in Returned (max samplingInterval2 node_minimumSamplingInterval) s)"

definition process_filter ::
  "Externals \<Rightarrow> BaseNode \<Rightarrow> MonitoringFilter option \<Rightarrow> FilterResult option" where
  "process_filter ext node filter0 =
     (case filter0 of
        None \<Rightarrow> None
      | Some (EventFilter selectClauses) \<Rightarrow>
          Some (EventFilterResult (checkSelectClauses ext node selectClauses))
      | Some (DataChangeFilter deadbandType deadbandValue) \<Rightarrow> None
      | Some AggregateFilter \<Rightarrow> Some AggregateFilterResult)"

text \<open>
  The two validation functions are plain functions (no \<^verbatim>\<open>this\<close>): they answer a
  status, or fail an assertion.
\<close>

definition validateDataChangeFilter ::
  "MonitoringFilter \<Rightarrow> ReadValueId \<Rightarrow> BaseNode \<Rightarrow> failure + StatusCode" where
  "validateDataChangeFilter filter0 itemToMonitor0 node =
     (if attributeId itemToMonitor0 \<noteq> Value then Inl AssertionError
      else
        (case filter0 of
           DataChangeFilter deadbandType deadbandValue \<Rightarrow>
             if \<not> is_UAVariable node then Inr BadNodeIdInvalid
             else if \<not> isSupertypeOf node (dataType node) Number then Inr BadFilterNotAllowed
             else if deadbandType = Percent
               then (if js_double_le deadbandValue 0 \<or> js_double_ge deadbandValue 100
                     then Inr BadDeadbandFilterInvalid
                     else Inr Good)
             else Inr Good
         | EventFilter selectClauses \<Rightarrow> Inl AssertionError
         | AggregateFilter \<Rightarrow> Inl AssertionError))"

definition is_EventFilter :: "MonitoringFilter option \<Rightarrow> bool" where
  "is_EventFilter filter0 = (case filter0 of Some (EventFilter c) \<Rightarrow> True | _ \<Rightarrow> False)"

definition is_DataChangeFilter :: "MonitoringFilter option \<Rightarrow> bool" where
  "is_DataChangeFilter filter0 = (case filter0 of Some (DataChangeFilter t v) \<Rightarrow> True | _ \<Rightarrow> False)"

definition validateFilter ::
  "MonitoringFilter option \<Rightarrow> ReadValueId \<Rightarrow> BaseNode \<Rightarrow> failure + StatusCode" where
  "validateFilter filter0 itemToMonitor0 node =
     (if filter0 \<noteq> None \<and> is_EventFilter filter0
         \<and> attributeId itemToMonitor0 \<noteq> EventNotifier
      then Inr BadFilterNotAllowed
      else if filter0 \<noteq> None \<and> is_DataChangeFilter filter0
         \<and> attributeId itemToMonitor0 \<noteq> Value
      then Inr BadFilterNotAllowed
      else if filter0 \<noteq> None \<and> attributeId itemToMonitor0 \<noteq> EventNotifier
         \<and> attributeId itemToMonitor0 \<noteq> Value
      then Inr BadFilterNotAllowed
      else if is_DataChangeFilter filter0
      then validateDataChangeFilter (the filter0) itemToMonitor0 node
      else Inr Good)"

definition handle_error :: "StatusCode \<Rightarrow> MonitoredItemCreateResult" where
  "handle_error statusCode0 =
     \<lparr>statusCode = statusCode0, monitoredItemId = 0, revisedSamplingInterval = 0,
      revisedQueueSize = 0, filterResult = None\<rparr>"

text \<open>A string is truthy when it is there and not empty.\<close>

definition js_truthy_string :: "string option \<Rightarrow> bool" where
  "js_truthy_string x = (case x of None \<Rightarrow> False | Some str \<Rightarrow> str \<noteq> [])"

definition createMonitoredItemStep2 ::
  "Externals \<Rightarrow> TimestampsToReturn \<Rightarrow> MonitoredItemCreateRequest \<Rightarrow> BaseNode
     \<Rightarrow> Subscription \<Rightarrow> (MonitoredItemCreateResult, Subscription) outcome" where
  "createMonitoredItemStep2 ext timestampsToReturn monitoredItemCreateRequest node s =
     (let itemToMonitor0 = itemToMonitor monitoredItemCreateRequest;
          s = s\<lparr>monitoredItemIdCounter := monitoredItemIdCounter s + 1\<rparr>;
          monitoredItemId0 = monitoredItemIdCounter s;
          requestedParameters0 = requestedParameters monitoredItemCreateRequest
      in and_then (adjustSamplingInterval ext (samplingInterval requestedParameters0) node s)
           (\<lambda>samplingInterval1 s.
              let requestedParameters1 = requestedParameters0\<lparr>samplingInterval := samplingInterval1\<rparr>;
                  monitoredItem =
                    (new_MonitoredItem ext requestedParameters1 monitoredItemId0 itemToMonitor0)
                      \<lparr>item_timestampsToReturn := timestampsToReturn\<rparr>
              in and_then (assert_that (item_monitoredItemId monitoredItem = monitoredItemId0) s)
                   (\<lambda>_ s.
                      let s = s\<lparr>monitoredItems :=
                                  AList.update monitoredItemId0 monitoredItem (monitoredItems s)\<rparr>;
                          filterResult0 = process_filter ext node (filter' requestedParameters1)
                      in Returned
                           \<lparr>statusCode = Good, monitoredItemId = monitoredItemId0,
                            revisedSamplingInterval = item_samplingInterval monitoredItem,
                            revisedQueueSize = item_queueSize monitoredItem,
                            filterResult = filterResult0\<rparr> s)))"

text \<open>
  Modelled from the spec: \<^verbatim>\<open>setMonitoringMode(mode)\<close> of the item sets its monitoring
  mode. The item is the object held in the map under \<open>key\<close>, so the map sees the change.
\<close>

definition createMonitoredItemStep3 ::
  "nat \<Rightarrow> MonitoredItem \<Rightarrow> MonitoredItemCreateRequest \<Rightarrow> Subscription
     \<Rightarrow> (unit, Subscription) outcome" where
  "createMonitoredItemStep3 key monitoredItem monitoredItemCreateRequest s =
     and_then (assert_that (item_monitoringMode monitoredItem = Invalid) s) (\<lambda>_ s.
     and_then (assert_that (item_has_samplingFunc monitoredItem) s) (\<lambda>_ s.
       let monitoringMode0 = monitoringMode monitoredItemCreateRequest;
           s = log_effect (MonitoredItem_setMonitoringMode key monitoringMode0) s;
           monitoredItem1 = monitoredItem\<lparr>item_monitoringMode := monitoringMode0\<rparr>
       in Returned () (s\<lparr>monitoredItems := AList.update key monitoredItem1 (monitoredItems s)\<rparr>)))"

definition createMonitoredItem ::
  "Externals \<Rightarrow> AddressSpace \<Rightarrow> TimestampsToReturn \<Rightarrow> MonitoredItemCreateRequest
     \<Rightarrow> Subscription \<Rightarrow> (MonitoredItemCreateResult, Subscription) outcome" where
  "createMonitoredItem ext addressSpace timestampsToReturn monitoredItemCreateRequest s =
     (let itemToMonitor0 = itemToMonitor monitoredItemCreateRequest
      in case findNode addressSpace (nodeId itemToMonitor0) of
           None \<Rightarrow> Returned (handle_error BadNodeIdUnknown) s
         | Some node \<Rightarrow>
             if attributeId itemToMonitor0 = Value \<and> \<not> is_UAVariable node
             then Returned (handle_error BadAttributeIdInvalid) s
             else if attributeId itemToMonitor0 = INVALID
             then Returned (handle_error BadAttributeIdInvalid) s
             else if \<not> indexRange_isValid itemToMonitor0
             then Returned (handle_error BadIndexRangeInvalid) s
             else if js_truthy_string (dataEncoding_name itemToMonitor0)
                     \<and> attributeId itemToMonitor0 \<noteq> Value
             then Returned (handle_error BadDataEncodingInvalid) s
             else if \<not> is_valid_dataEncoding ext (dataEncoding_name itemToMonitor0)
             then Returned (handle_error BadDataEncodingUnsupported) s
             else
               (let requestedParameters0 = requestedParameters monitoredItemCreateRequest;
                    filter0 = filter' requestedParameters0
                in case validateFilter filter0 itemToMonitor0 node of
                     Inl e \<Rightarrow> Threw e s
                   | Inr statusCodeFilter \<Rightarrow>
                       if statusCodeFilter \<noteq> Good
                       then Returned (handle_error statusCodeFilter) s
                       else
                         and_then (createMonitoredItemStep2 ext timestampsToReturn
                                     monitoredItemCreateRequest node s)
                           (\<lambda>monitoredItemCreateResult s.
                         and_then (assert_that (statusCode monitoredItemCreateResult = Good) s)
                           (\<lambda>_ s.
                              case map_of (monitoredItems s) (monitoredItemId monitoredItemCreateResult) of
                                None \<Rightarrow> Threw AssertionError s
                              | Some monitoredItem \<Rightarrow>
                                  (let key = monitoredItemId monitoredItemCreateResult;
                                       monitoredItem1 = monitoredItem\<lparr>item_node := Some node\<rparr>;
                                       s = log_effect (Emit_monitoredItem key) s;
                                       monitoredItem2 = on_monitoredItem ext monitoredItem1;
                                       s = s\<lparr>monitoredItems :=
                                               AList.update key monitoredItem2 (monitoredItems s)\<rparr>
                                   in and_then (createMonitoredItemStep3 key monitoredItem2
                                                  monitoredItemCreateRequest s)
                                        (\<lambda>_ s. Returned monitoredItemCreateResult s))))))"

subsection \<open>The validation of a creation request, in the words of the specification\<close>

text \<open>
  Filter validation taken as one step: the status \<^verbatim>\<open>__validateFilter\<close> answers, as
  a function of the filter, the attribute and the node. An EventFilter passes only on
  EventNotifier, a DataChangeFilter only on Value, any filter only on one of the two; for
  a DataChangeFilter the node must be a Variable (else BadNodeIdInvalid) whose data type
  is a subtype of Number (else BadFilterNotAllowed), and a Percent dead band is refused
  (BadDeadbandFilterInvalid) when \<^verbatim>\<open>deadbandValue <= 0 || deadbandValue >= 100\<close>.
\<close>

definition filter_validation_status ::
  "MonitoringFilter option \<Rightarrow> AttributeId \<Rightarrow> BaseNode \<Rightarrow> StatusCode" where
  "filter_validation_status filter0 attr node =
     (case filter0 of
        None \<Rightarrow> Good
      | Some (EventFilter selectClauses) \<Rightarrow>
          if attr = EventNotifier then Good else BadFilterNotAllowed
      | Some (DataChangeFilter deadbandType deadbandValue) \<Rightarrow>
          if attr \<noteq> Value then BadFilterNotAllowed
          else if \<not> is_UAVariable node then BadNodeIdInvalid
          else if \<not> isSupertypeOf node (dataType node) Number then BadFilterNotAllowed
          else if deadbandType = Percent
                  \<and> (js_double_le deadbandValue 0 \<or> js_double_ge deadbandValue 100)
            then BadDeadbandFilterInvalid
          else Good
      | Some AggregateFilter \<Rightarrow>
          if attr = Value \<or> attr = EventNotifier then Good else BadFilterNotAllowed)"

text \<open>
  The validation order of section 4.4: the checks in the order of the specification, each
  with the status it gives; the first check that fails decides. The last check is filter
  validation, one step with the status it answers.
\<close>

definition spec_validation ::
  "Externals \<Rightarrow> AddressSpace \<Rightarrow> MonitoredItemCreateRequest \<Rightarrow> StatusCode option" where
  "spec_validation ext addressSpace request =
     (let item = itemToMonitor request
      in case findNode addressSpace (nodeId item) of
           None \<Rightarrow> Some BadNodeIdUnknown
         | Some node \<Rightarrow>
             map_option snd
               (find fst
                  [(attributeId item = Value \<and> \<not> is_UAVariable node, BadAttributeIdInvalid),
                   (attributeId item = INVALID, BadAttributeIdInvalid),
                   (\<not> indexRange_isValid item, BadIndexRangeInvalid),
                   (js_truthy_string (dataEncoding_name item) \<and> attributeId item \<noteq> Value,
                      BadDataEncodingInvalid),
                   (\<not> is_valid_dataEncoding ext (dataEncoding_name item),
                      BadDataEncodingUnsupported),
                   (filter_validation_status (filter' (requestedParameters request))
                        (attributeId item) node \<noteq> Good,
                      filter_validation_status (filter' (requestedParameters request))
                        (attributeId item) node)]))"

text \<open>
  Sampling interval negotiation as section 4.6 of the specification words it: a negative
  request gives the publishing interval; 0 gives the node's MinimumSamplingInterval
  attribute if it reads Good; a request below the supported minimum is raised to it, one
  above the supported maximum is lowered to it; the result is raised to the node's
  \<^verbatim>\<open>minimumSamplingInterval\<close>.
\<close>

definition spec_samplingInterval :: "Externals \<Rightarrow> int \<Rightarrow> BaseNode \<Rightarrow> int \<Rightarrow> int" where
  "spec_samplingInterval ext samplingInterval0 node publishingInterval0 =
     max (if samplingInterval0 < 0 then publishingInterval0
          else if samplingInterval0 = 0
            then (if fst (MinimumSamplingInterval_attribute node) = Good
                  then snd (MinimumSamplingInterval_attribute node) else 0)
          else if samplingInterval0 < MonitoredItem_minimumSamplingInterval ext
            then MonitoredItem_minimumSamplingInterval ext
          else if samplingInterval0 > MonitoredItem_maximumSamplingInterval ext
            then MonitoredItem_maximumSamplingInterval ext
          else samplingInterval0)
         (minimumSamplingInterval node)"

text \<open>
  The assertions on the way from a validated request to its result. The first is the one
  \<^verbatim>\<open>adjustSamplingInterval\<close> makes on the node's MinimumSamplingInterval attribute, when
  the request asks for the sampling interval 0 and the attribute reads Good.
\<close>

definition sampling_assert_holds :: "Externals \<Rightarrow> int \<Rightarrow> BaseNode \<Rightarrow> bool" where
  "sampling_assert_holds ext samplingInterval0 node =
     (if samplingInterval0 = 0 \<and> fst (MinimumSamplingInterval_attribute node) = Good
      then 0 \<le> snd (MinimumSamplingInterval_attribute node)
           \<and> snd (MinimumSamplingInterval_attribute node) \<le> MonitoredItem_maximumSamplingInterval ext
      else True)"

text \<open>The item \<^verbatim>\<open>_createMonitoredItemStep2\<close> constructs.\<close>

definition created_item ::
  "Externals \<Rightarrow> TimestampsToReturn \<Rightarrow> MonitoredItemCreateRequest \<Rightarrow> BaseNode
     \<Rightarrow> Subscription \<Rightarrow> MonitoredItem" where
  "created_item ext timestampsToReturn request node s =
     (new_MonitoredItem ext
        ((requestedParameters request)
           \<lparr>samplingInterval :=
              spec_samplingInterval ext (samplingInterval (requestedParameters request)) node
                (publishingInterval s)\<rparr>)
        (monitoredItemIdCounter s + 1) (itemToMonitor request))
       \<lparr>item_timestampsToReturn := timestampsToReturn\<rparr>"

text \<open>
  The other assertions: the constructed item carries the new id, and it is in mode
  Invalid and has its sampling function once the owner's listener has seen it.
\<close>

definition creation_asserts_hold ::
  "Externals \<Rightarrow> TimestampsToReturn \<Rightarrow> MonitoredItemCreateRequest \<Rightarrow> BaseNode
     \<Rightarrow> Subscription \<Rightarrow> bool" where
  "creation_asserts_hold ext timestampsToReturn request node s =
     (sampling_assert_holds ext (samplingInterval (requestedParameters request)) node
      \<and> (let monitoredItem = created_item ext timestampsToReturn request node s;
              monitoredItem2 = on_monitoredItem ext (monitoredItem\<lparr>item_node := Some node\<rparr>)
          in item_monitoredItemId monitoredItem = monitoredItemIdCounter s + 1
             \<and> item_monitoringMode monitoredItem2 = Invalid
             \<and> item_has_samplingFunc monitoredItem2))"

subsection \<open>Reading an outcome\<close>

definition outcome_state :: "('a, 's) outcome \<Rightarrow> 's option" where
  "outcome_state r = (case r of Returned v s \<Rightarrow> Some s | Threw e s \<Rightarrow> Some s | NoReturn \<Rightarrow> None)"

definition outcome_value :: "('a, 's) outcome \<Rightarrow> 'a option" where
  "outcome_value r = (case r of Returned v s \<Rightarrow> Some v | Threw e s \<Rightarrow> None | NoReturn \<Rightarrow> None)"

definition outcome_failure :: "('a, 's) outcome \<Rightarrow> failure option" where
  "outcome_failure r = (case r of Returned v s \<Rightarrow> None | Threw e s \<Rightarrow> Some e | NoReturn \<Rightarrow> None)"

subsection \<open>Concrete inputs\<close>

definition engine_idle :: PublishEngine where
  "engine_idle = \<lparr>pendingPublishRequestCount = 0, keep_alive_reply = False, has_on_tick = False\<rparr>"

definition options_50_1_2 :: SubscriptionOptions where
  "options_50_1_2 =
     \<lparr>opt_publishEngine = engine_idle, opt_id = 1, opt_priority = 0,
      opt_publishingInterval = 50, opt_maxKeepAliveCount = 1, opt_lifeTimeCount = 2,
      opt_publishingEnabled = None, opt_maxNotificationsPerPublish = 0\<rparr>"

definition subscription_50_1_2 :: Subscription where
  "subscription_50_1_2 =
     \<lparr>publishEngine = engine_idle, subscriptionId = Id 1, priority = 0,
      publishingInterval = 100, maxKeepAliveCount = 2, lifeTimeCount = 6,
      maxNotificationsPerPublish = 0, keep_alive_counter = 2, life_time_counter = 0,
      pending_notifications = [], sent_notifications = [], sequence_number_generator = 1,
      state = NORMAL, publishIntervalCount = 0, monitoredItems = [],
      monitoredItemIdCounter = 0, publishingEnabled = True, timerId = Some 100,
      subscriptionDiagnostics = new_SubscriptionDiagnostics,
      effects = [SetInterval 100, Registry_register]\<rparr>"

definition modify_parameters_0 :: ModifyParameters where
  "modify_parameters_0 =
     \<lparr>requestedPublishingInterval = 0, requestedLifetimeCount = 0,
      requestedMaxKeepAliveCount = 0, param_maxNotificationsPerPublish = 0,
      param_priority = 0\<rparr>"

text \<open>
  The subscription constructed from 50, 1, 2 after it sent one message (sequence
  number 1) and three publishing intervals went by with no publish request parked.
\<close>

definition record_1 :: NotificationRecord where
  "record_1 =
     \<lparr>notification = \<lparr>msg_sequenceNumber = 1, notificationData = [DataChangeNotification []]\<rparr>,
      start_tick = 0, sequenceNumber = 1\<rparr>"

definition subscription_one_sent :: Subscription where
  "subscription_one_sent =
     subscription_50_1_2
       \<lparr>sent_notifications := [record_1], sequence_number_generator := 2,
        keep_alive_counter := 0, life_time_counter := 3, publishIntervalCount := 3,
        state := LATE,
        effects := [SetInterval 100, Registry_register, Emit_perform_update,
                    Emit_perform_update, Emit_perform_update]\<rparr>"

text \<open>One message made and handed over, \<open>n\<close> times.\<close>

primrec publish_n :: "nat \<Rightarrow> Subscription \<Rightarrow> (unit, Subscription) outcome" where
  "publish_n 0 s = Returned () s"
| "publish_n (Suc n) s =
     and_then (addNotificationMessage [DataChangeNotification []] s) (\<lambda>_ s.
     and_then (popNotificationToSend s) (\<lambda>_ s. publish_n n s))"

text \<open>
  An engine with one publish request parked that refuses the keep-alive, and the
  subscription constructed from 50, 1, 2 on it.
\<close>

definition engine_refusing :: PublishEngine where
  "engine_refusing = \<lparr>pendingPublishRequestCount = 1, keep_alive_reply = False, has_on_tick = False\<rparr>"

definition subscription_refused :: Subscription where
  "subscription_refused = subscription_50_1_2\<lparr>publishEngine := engine_refusing\<rparr>"

text \<open>The subscription constructed from 50, 1, 2 with publishing disabled.\<close>

definition subscription_disabled :: Subscription where
  "subscription_disabled = subscription_50_1_2\<lparr>publishingEnabled := False\<rparr>"

text \<open>The subscription constructed from 50, 1, 2 with two monitored items.\<close>

definition item_of :: "nat \<Rightarrow> MonitoredItem" where
  "item_of i =
     \<lparr>item_monitoredItemId = i, item_clientHandle = i, item_samplingInterval = 100,
      item_queueSize = 1, item_monitoringMode = Reporting, item_timestampsToReturn = Both,
      item_node = None, item_queue = [], item_has_samplingFunc = True\<rparr>"

definition subscription_two_items :: Subscription where
  "subscription_two_items =
     subscription_50_1_2\<lparr>monitoredItems := [(1, item_of 1), (2, item_of 2)],
                         monitoredItemIdCounter := 2\<rparr>"

text \<open>
  An address space with a numeric Variable (node 1), a Variable of another data type
  (node 3) and a node that is no Variable (node 2); externals that accept the two
  default encodings, construct an item in mode Invalid with the id it is given, and
  whose listener installs the sampling function.
\<close>

definition variable_node :: BaseNode where
  "variable_node =
     \<lparr>is_UAVariable = True, dataType = 11, minimumSamplingInterval = 0,
      MinimumSamplingInterval_attribute = (Good, 0),
      isSupertypeOf = (\<lambda>a b. b = Number \<and> a \<in> {Number, 11})\<rparr>"

definition string_variable_node :: BaseNode where
  "string_variable_node = variable_node\<lparr>dataType := 12\<rparr>"

definition object_node :: BaseNode where
  "object_node = variable_node\<lparr>is_UAVariable := False\<rparr>"

definition address_space_0 :: AddressSpace where
  "address_space_0 =
     \<lparr>findNode = (\<lambda>n. if n = 1 then Some variable_node
                      else if n = 2 then Some object_node
                      else if n = 3 then Some string_variable_node
                      else None)\<rparr>"

definition externals_0 :: Externals where
  "externals_0 =
     \<lparr>is_valid_dataEncoding =
        (\<lambda>name. name = None \<or> name = Some ''DefaultBinary'' \<or> name = Some ''DefaultXml''),
      MonitoredItem_minimumSamplingInterval = 50,
      MonitoredItem_maximumSamplingInterval = 3600000,
      new_MonitoredItem =
        (\<lambda>parameters i item.
           \<lparr>item_monitoredItemId = i, item_clientHandle = clientHandle parameters,
            item_samplingInterval = samplingInterval parameters,
            item_queueSize = max 1 (queueSize parameters), item_monitoringMode = Invalid,
            item_timestampsToReturn = Neither, item_node = None, item_queue = [],
            item_has_samplingFunc = False\<rparr>),
      on_monitoredItem = (\<lambda>item. item\<lparr>item_has_samplingFunc := True\<rparr>),
      checkSelectClauses = (\<lambda>node clauses. map (\<lambda>c. Good) clauses)\<rparr>"

definition request_on :: "nat \<Rightarrow> AttributeId \<Rightarrow> MonitoringFilter option \<Rightarrow> MonitoredItemCreateRequest" where
  "request_on n attr filter0 =
     \<lparr>itemToMonitor =
        \<lparr>nodeId = n, attributeId = attr, indexRange_isValid = True, dataEncoding_name = None\<rparr>,
      monitoringMode = Reporting,
      requestedParameters =
        \<lparr>clientHandle = 7, samplingInterval = 1000, filter' = filter0, queueSize = 1\<rparr>\<rparr>"

section \<open>Properties\<close>

subsection \<open>The adjusting functions\<close>

lemma adjust_publishing_interval_clamp:
  "adjust_publishing_interval x = max 100 (min x 2592000000)"
  by (auto simp: adjust_publishing_interval_def js_or_def Let_def defaultPublishingInterval_def
      minimumPublishingInterval_def maximumPublishingInterval_def)

lemma adjust_maxKeepAliveCount_clamp:
  "adjust_maxKeepAliveCount x = max 2 (min (js_or x 10) 12000)"
  by (auto simp: adjust_maxKeepAliveCount_def js_or_def Let_def minimumMaxKeepAliveCount_def
      maximumMaxKeepAliveCount_def)

lemma adjust_maxKeepAliveCount_range:
  "2 \<le> adjust_maxKeepAliveCount x \<and> adjust_maxKeepAliveCount x \<le> 12000"
  by (auto simp: adjust_maxKeepAliveCount_clamp)

lemma adjust_lifeTimeCount_eq:
  "adjust_lifeTimeCount l k = max (js_or l 1) (3 * k)"
  by (simp add: adjust_lifeTimeCount_def Let_def mult.commute)

lemma start_timer_returns:
  assumes "timerId s = None" and "publishingInterval s > 0"
  shows "start_timer s =
     Returned ()
       (s\<lparr>state := NORMAL, keep_alive_counter := maxKeepAliveCount s,
          timerId := Some (publishingInterval s),
          effects := effects s @ [SetInterval (publishingInterval s), Registry_register]\<rparr>)"
  using assms by (simp add: start_timer_def assert_that_def Let_def log_effect_def)

subsection \<open>Construction\<close>

lemma new_Subscription_returns:
  "new_Subscription options =
     Returned ()
       \<lparr>publishEngine = opt_publishEngine options,
        subscriptionId = (if opt_id options = 0 then invalid_id else Id (opt_id options)),
        priority = js_or (opt_priority options) 0,
        publishingInterval = adjust_publishing_interval (opt_publishingInterval options),
        maxKeepAliveCount = adjust_maxKeepAliveCount (opt_maxKeepAliveCount options),
        lifeTimeCount = adjust_lifeTimeCount (opt_lifeTimeCount options)
          (adjust_maxKeepAliveCount (opt_maxKeepAliveCount options)),
        maxNotificationsPerPublish =
          adjust_maxNotificationsPerPublish (opt_maxNotificationsPerPublish options),
        keep_alive_counter = adjust_maxKeepAliveCount (opt_maxKeepAliveCount options),
        life_time_counter = 0,
        pending_notifications = [],
        sent_notifications = [],
        sequence_number_generator = 1,
        state = NORMAL,
        publishIntervalCount = 0,
        monitoredItems = [],
        monitoredItemIdCounter = 0,
        publishingEnabled = adjust_publishinEnable (opt_publishingEnabled options),
        timerId = Some (adjust_publishing_interval (opt_publishingInterval options)),
        subscriptionDiagnostics = new_SubscriptionDiagnostics,
        effects = [SetInterval (adjust_publishing_interval (opt_publishingInterval options)),
                   Registry_register]\<rparr>"
proof -
  have pos: "adjust_publishing_interval (opt_publishingInterval options) > 0"
    by (simp add: adjust_publishing_interval_clamp)
  show ?thesis
    unfolding new_Subscription_def Let_def
    by (subst start_timer_returns) (simp_all add: pos)
qed

text \<open>
  C5. Every construction of a Subscription returns; the effective publishingInterval is
  the requested one clamped to [100, 2592000000]; the effective maxKeepAliveCount lies
  in [2, 12000] (it is the requested one clamped, 10 standing for a request of 0); the
  effective lifeTimeCount is at least three times the effective maxKeepAliveCount; and
  the requests 50, 1, 2 give 100, 2, 6.
\<close>

theorem new_Subscription_effective_values:
  "\<exists>s. new_Subscription options = Returned () s
     \<and> publishingInterval s = max 100 (min (opt_publishingInterval options) 2592000000)
     \<and> maxKeepAliveCount s = max 2 (min (js_or (opt_maxKeepAliveCount options) 10) 12000)
     \<and> 2 \<le> maxKeepAliveCount s \<and> maxKeepAliveCount s \<le> 12000
     \<and> lifeTimeCount s = max (js_or (opt_lifeTimeCount options) 1) (3 * maxKeepAliveCount s)
     \<and> 3 * maxKeepAliveCount s \<le> lifeTimeCount s
     \<and> (opt_publishingInterval options = 50 \<and> opt_maxKeepAliveCount options = 1
          \<and> opt_lifeTimeCount options = 2
        \<longrightarrow> publishingInterval s = 100 \<and> maxKeepAliveCount s = 2 \<and> lifeTimeCount s = 6)"
  unfolding new_Subscription_returns
  by (simp add: adjust_publishing_interval_clamp adjust_maxKeepAliveCount_clamp
      adjust_lifeTimeCount_eq js_or_def)

theorem new_Subscription_effective_values_witness:
  "\<exists>s. new_Subscription options_50_1_2 = Returned () s
     \<and> publishingInterval s = 100 \<and> maxKeepAliveCount s = 2 \<and> lifeTimeCount s = 6"
  using new_Subscription_effective_values [of options_50_1_2]
  by (auto simp: options_50_1_2_def)

subsection \<open>Modification\<close>

lemma stop_timer_fields:
  "timerId (stop_timer s) = None"
  "publishingInterval (stop_timer s) = publishingInterval s"
  "maxKeepAliveCount (stop_timer s) = maxKeepAliveCount s"
  "effects (stop_timer s) =
     effects s @ (if timerId s = None then [] else [ClearInterval, Registry_unregister])"
  by (simp_all add: stop_timer_def log_effect_def split: option.splits)

lemma stop_timer_eq:
  "stop_timer s =
     s\<lparr>timerId := None,
       effects := effects s @ (if timerId s = None then [] else [ClearInterval, Registry_unregister])\<rparr>"
  by (simp add: stop_timer_def log_effect_def split: option.splits)

lemma new_Subscription_50_1_2:
  "new_Subscription options_50_1_2 = Returned () subscription_50_1_2"
  unfolding new_Subscription_returns
  by (simp add: options_50_1_2_def subscription_50_1_2_def adjust_publishing_interval_clamp
      adjust_maxKeepAliveCount_clamp adjust_lifeTimeCount_eq js_or_def
      adjust_maxNotificationsPerPublish_def adjust_publishinEnable_def)

lemma js_or_zero: "js_or x 0 = x"
  by (simp add: js_or_def)

lemma lifeTimeCount_three_times: "3 * k \<le> adjust_lifeTimeCount l k"
  by (simp add: adjust_lifeTimeCount_eq)

lemma modify_returns:
  "modify param s =
     Returned ()
       (s\<lparr>subscriptionDiagnostics :=
            (subscriptionDiagnostics s)\<lparr>modifyCount := modifyCount (subscriptionDiagnostics s) + 1\<rparr>,
          publishingInterval := adjust_publishing_interval (requestedPublishingInterval param),
          maxKeepAliveCount :=
            adjust_maxKeepAliveCount (js_or (requestedMaxKeepAliveCount param) (maxKeepAliveCount s)),
          lifeTimeCount :=
            adjust_lifeTimeCount (js_or (requestedLifetimeCount param) (lifeTimeCount s))
              (adjust_maxKeepAliveCount (js_or (requestedMaxKeepAliveCount param) (maxKeepAliveCount s))),
          maxNotificationsPerPublish := param_maxNotificationsPerPublish param,
          priority := param_priority param,
          life_time_counter := 0,
          keep_alive_counter :=
            adjust_maxKeepAliveCount (js_or (requestedMaxKeepAliveCount param) (maxKeepAliveCount s)),
          state := NORMAL,
          timerId := Some (adjust_publishing_interval (requestedPublishingInterval param)),
          effects := effects s
            @ (if timerId s = None then [] else [ClearInterval, Registry_unregister])
            @ [SetInterval (adjust_publishing_interval (requestedPublishingInterval param)),
               Registry_register]\<rparr>)"
proof -
  have pos: "0 < adjust_publishing_interval x" for x
    by (simp add: adjust_publishing_interval_clamp)
  show ?thesis
    unfolding modify_def Let_def
    by (subst start_timer_returns)
       (simp_all add: stop_timer_fields stop_timer_eq pos js_or_zero
          resetLifeTimeAndKeepAliveCounters_def resetLifeTimeCounter_def resetKeepAliveCounter_def)
qed

text \<open>
  C4, as stated, fails: after \<^verbatim>\<open>modify\<close> the keep-alive counter is not 0. The
  subscription just constructed from the requests 50, 1, 2 is in state NORMAL; modified
  with every request 0 it returns with its keep-alive counter at 2, its
  maxKeepAliveCount, which restarting the ticker wrote after the reset.
\<close>

theorem modify_keep_alive_counter_counterexample:
  "state subscription_50_1_2 \<noteq> CLOSED
   \<and> outcome_failure (modify modify_parameters_0 subscription_50_1_2) = None
   \<and> map_option keep_alive_counter
         (outcome_state (modify modify_parameters_0 subscription_50_1_2)) = Some 2"
proof -
  have "adjust_maxKeepAliveCount
          (js_or (requestedMaxKeepAliveCount modify_parameters_0)
             (maxKeepAliveCount subscription_50_1_2)) = 2"
    by (simp add: modify_parameters_0_def subscription_50_1_2_def js_or_def
        adjust_maxKeepAliveCount_clamp)
  moreover have "state subscription_50_1_2 \<noteq> CLOSED"
    by (simp add: subscription_50_1_2_def)
  ultimately show ?thesis
    by (simp add: modify_returns outcome_failure_def outcome_state_def)
qed

text \<open>
  C4, amended. Every \<^verbatim>\<open>modify(params)\<close> on a non-closed subscription returns. The
  new publishingInterval is the requested one clamped to [100, 2592000000]; the new
  maxKeepAliveCount is the requested one (the current one for a request of 0, 10 if that
  is 0 too) clamped to [2, 12000]; the new lifeTimeCount is the requested one (the
  current one for 0) raised to at least 3 times the new maxKeepAliveCount; a
  maxNotificationsPerPublish that is not negative and a priority in 0..255 are stored as
  given; the life-time counter is 0; the keep-alive counter is the new
  maxKeepAliveCount and the state is NORMAL, as the restarted ticker sets them; the
  timer, cleared if it was armed, is armed with the new period; modifyCount has grown
  by exactly 1.
\<close>

theorem modify_applies_parameters:
  assumes "state s \<noteq> CLOSED"
  shows "\<exists>s'. modify param s = Returned () s'
     \<and> publishingInterval s' = max 100 (min (requestedPublishingInterval param) 2592000000)
     \<and> maxKeepAliveCount s' =
         max 2 (min (js_or (js_or (requestedMaxKeepAliveCount param) (maxKeepAliveCount s)) 10) 12000)
     \<and> 2 \<le> maxKeepAliveCount s' \<and> maxKeepAliveCount s' \<le> 12000
     \<and> lifeTimeCount s' =
         max (js_or (js_or (requestedLifetimeCount param) (lifeTimeCount s)) 1)
             (3 * maxKeepAliveCount s')
     \<and> 3 * maxKeepAliveCount s' \<le> lifeTimeCount s'
     \<and> (0 \<le> param_maxNotificationsPerPublish param
          \<longrightarrow> maxNotificationsPerPublish s' = param_maxNotificationsPerPublish param)
     \<and> (0 \<le> param_priority param \<and> param_priority param \<le> 255
          \<longrightarrow> priority s' = param_priority param)
     \<and> life_time_counter s' = 0
     \<and> keep_alive_counter s' = maxKeepAliveCount s'
     \<and> state s' = NORMAL
     \<and> timerId s' = Some (publishingInterval s')
     \<and> effects s' =
         effects s @ (if timerId s = None then [] else [ClearInterval, Registry_unregister])
           @ [SetInterval (publishingInterval s'), Registry_register]
     \<and> modifyCount (subscriptionDiagnostics s') = modifyCount (subscriptionDiagnostics s) + 1"
proof -
  let ?k = "adjust_maxKeepAliveCount (js_or (requestedMaxKeepAliveCount param) (maxKeepAliveCount s))"
  let ?l = "adjust_lifeTimeCount (js_or (requestedLifetimeCount param) (lifeTimeCount s)) ?k"
  have k: "?k = max 2 (min (js_or (js_or (requestedMaxKeepAliveCount param) (maxKeepAliveCount s)) 10) 12000)"
    by (rule adjust_maxKeepAliveCount_clamp)
  have kr: "2 \<le> ?k \<and> ?k \<le> 12000"
    by (rule adjust_maxKeepAliveCount_range)
  have l: "?l = max (js_or (js_or (requestedLifetimeCount param) (lifeTimeCount s)) 1) (3 * ?k)"
    by (rule adjust_lifeTimeCount_eq)
  have l3: "3 * ?k \<le> ?l"
    by (rule lifeTimeCount_three_times)
  have p: "adjust_publishing_interval (requestedPublishingInterval param)
             = max 100 (min (requestedPublishingInterval param) 2592000000)"
    by (rule adjust_publishing_interval_clamp)
  obtain s' where run: "modify param s = Returned () s'"
    and f1: "publishingInterval s' = adjust_publishing_interval (requestedPublishingInterval param)"
    and f2: "maxKeepAliveCount s' = ?k"
    and f3: "lifeTimeCount s' = ?l"
    and f4: "maxNotificationsPerPublish s' = param_maxNotificationsPerPublish param"
    and f5: "priority s' = param_priority param"
    and f6: "life_time_counter s' = 0"
    and f7: "keep_alive_counter s' = ?k"
    and f8: "state s' = NORMAL"
    and f9: "timerId s' = Some (adjust_publishing_interval (requestedPublishingInterval param))"
    and f10: "effects s' =
         effects s @ (if timerId s = None then [] else [ClearInterval, Registry_unregister])
           @ [SetInterval (adjust_publishing_interval (requestedPublishingInterval param)),
              Registry_register]"
    and f11: "modifyCount (subscriptionDiagnostics s') = modifyCount (subscriptionDiagnostics s) + 1"
    by (simp add: modify_returns)
  have g2: "maxKeepAliveCount s' =
      max 2 (min (js_or (js_or (requestedMaxKeepAliveCount param) (maxKeepAliveCount s)) 10) 12000)"
    using f2 k by simp
  have g3: "lifeTimeCount s' =
      max (js_or (js_or (requestedLifetimeCount param) (lifeTimeCount s)) 1) (3 * maxKeepAliveCount s')"
    using f3 l f2 by simp
  have g4: "3 * maxKeepAliveCount s' \<le> lifeTimeCount s'"
    using f2 f3 l3 by simp
  have g5: "2 \<le> maxKeepAliveCount s' \<and> maxKeepAliveCount s' \<le> 12000"
    using f2 kr by simp
  have g1: "publishingInterval s' = max 100 (min (requestedPublishingInterval param) 2592000000)"
    using f1 p by simp
  have g7: "keep_alive_counter s' = maxKeepAliveCount s'"
    using f7 f2 by simp
  have g9: "timerId s' = Some (publishingInterval s')"
    using f9 f1 by simp
  have g10: "effects s' =
         effects s @ (if timerId s = None then [] else [ClearInterval, Registry_unregister])
           @ [SetInterval (publishingInterval s'), Registry_register]"
    using f10 f1 by simp
  from run g1 g2 g5 g3 g4 f4 f5 f6 g7 f8 g9 g10 f11 show ?thesis
    by blast
qed

theorem modify_applies_parameters_witness:
  "state subscription_50_1_2 \<noteq> CLOSED
   \<and> (\<exists>s'. modify modify_parameters_0 subscription_50_1_2 = Returned () s'
          \<and> publishingInterval s' = 100 \<and> maxKeepAliveCount s' = 2 \<and> lifeTimeCount s' = 6
          \<and> maxNotificationsPerPublish s' = 0 \<and> priority s' = 0
          \<and> life_time_counter s' = 0 \<and> keep_alive_counter s' = 2 \<and> state s' = NORMAL
          \<and> timerId s' = Some 100
          \<and> modifyCount (subscriptionDiagnostics s') = 1)"
proof -
  have ne: "state subscription_50_1_2 \<noteq> CLOSED"
    by (simp add: subscription_50_1_2_def)
  have fields: "maxKeepAliveCount subscription_50_1_2 = 2" "lifeTimeCount subscription_50_1_2 = 6"
    "modifyCount (subscriptionDiagnostics subscription_50_1_2) = 0"
    by (simp_all add: subscription_50_1_2_def new_SubscriptionDiagnostics_def)
  have params: "requestedPublishingInterval modify_parameters_0 = 0"
    "requestedMaxKeepAliveCount modify_parameters_0 = 0"
    "requestedLifetimeCount modify_parameters_0 = 0"
    "param_maxNotificationsPerPublish modify_parameters_0 = 0"
    "param_priority modify_parameters_0 = 0"
    by (simp_all add: modify_parameters_0_def)
  from modify_applies_parameters [OF ne, of modify_parameters_0]
  obtain s' where "modify modify_parameters_0 subscription_50_1_2 = Returned () s'"
    and "publishingInterval s' = 100" and "maxKeepAliveCount s' = 2" and "lifeTimeCount s' = 6"
    and "maxNotificationsPerPublish s' = 0" and "priority s' = 0"
    and "life_time_counter s' = 0" and "keep_alive_counter s' = 2" and "state s' = NORMAL"
    and "timerId s' = Some 100" and "modifyCount (subscriptionDiagnostics s') = 1"
    unfolding fields params by (auto simp: js_or_def)
  with ne show ?thesis by blast
qed

subsection \<open>The queues\<close>

lemma addNotificationMessage_returns:
  assumes "length d = 1 \<or> length d = 2"
  shows "addNotificationMessage d s =
     Returned ()
       (s\<lparr>sequence_number_generator := sequence_number_generator s + 1,
          pending_notifications := pending_notifications s @
            [\<lparr>notification = \<lparr>msg_sequenceNumber = sequence_number_generator s, notificationData = d\<rparr>,
              start_tick = publishIntervalCount s,
              sequenceNumber = sequence_number_generator s\<rparr>]\<rparr>)"
  using assms
  by (auto simp: addNotificationMessage_def assert_that_def get_next_sequence_number_def Let_def)

lemma popNotificationToSend_returns:
  assumes "pending_notifications s = x # rest"
  shows "popNotificationToSend s =
     Returned x
       (s\<lparr>pending_notifications := rest, sent_notifications := sent_notifications s @ [x],
          life_time_counter := 0, keep_alive_counter := 0\<rparr>)"
  using assms
  by (simp add: popNotificationToSend_def assert_that_def hasPendingNotifications_def
      pendingNotificationsCount_def resetLifeTimeAndKeepAliveCounters_def
      resetLifeTimeCounter_def resetKeepAliveCounter_def)

lemma discardOldSentNotifications_noop:
  "discardOldSentNotifications s = Returned () s"
  by (simp add: discardOldSentNotifications_def js_less_eq_def js_array_ToNumber_def
      maxNotificationMessagesInQueue_def)

lemma publish_n_sent_length:
  "\<exists>s'. publish_n n s = Returned () s'
        \<and> length (sent_notifications s') = length (sent_notifications s) + n"
proof (induction n arbitrary: s)
  case 0
  show ?case by simp
next
  case (Suc n)
  let ?d = "[DataChangeNotification []]"
  obtain s1 where add: "addNotificationMessage ?d s = Returned () s1"
    and sent1: "sent_notifications s1 = sent_notifications s"
    and pend1: "pending_notifications s1 \<noteq> []"
    by (simp add: addNotificationMessage_returns)
  from pend1 obtain x rest where "pending_notifications s1 = x # rest"
    by (cases "pending_notifications s1") auto
  from popNotificationToSend_returns [OF this]
  obtain s2 where pop: "popNotificationToSend s1 = Returned x s2"
    and sent2: "length (sent_notifications s2) = Suc (length (sent_notifications s1))"
    by simp
  from Suc.IH [of s2] obtain s' where "publish_n n s2 = Returned () s'"
    and "length (sent_notifications s') = length (sent_notifications s2) + n"
    by blast
  with add pop sent1 sent2 show ?case by simp
qed

text \<open>
  C1. The code does not keep the bound. Starting from the subscription constructed from
  50, 1, 2, making and handing over 101 messages and then calling
  \<^verbatim>\<open>discardOldSentNotifications\<close> throws nothing and leaves 101 records in the
  sent queue.
\<close>

theorem sent_notifications_exceed_100:
  "outcome_failure
     (and_then (publish_n 101 subscription_50_1_2) (\<lambda>_ s. discardOldSentNotifications s)) = None
   \<and> map_option (\<lambda>s. length (sent_notifications s))
       (outcome_state
         (and_then (publish_n 101 subscription_50_1_2) (\<lambda>_ s. discardOldSentNotifications s)))
     = Some 101"
proof -
  obtain s' where run: "publish_n 101 subscription_50_1_2 = Returned () s'"
    and len: "length (sent_notifications s') = length (sent_notifications subscription_50_1_2) + 101"
    using publish_n_sent_length [of 101 subscription_50_1_2] by blast
  have "length (sent_notifications subscription_50_1_2) = 0"
    by (simp add: subscription_50_1_2_def)
  with run len show ?thesis
    by (simp add: discardOldSentNotifications_noop outcome_failure_def outcome_state_def)
qed

subsection \<open>Acknowledgement\<close>

lemma fold_foundIndex_none:
  assumes "\<forall>e \<in> set arr. sequenceNumber e \<noteq> q"
  shows "fold (\<lambda>(index, e) foundIndex. if sequenceNumber e = q then int index else foundIndex)
           (enumerate k arr) acc = acc"
  using assms by (induction arr arbitrary: k acc) auto

lemma find_foundIndex_last:
  assumes "arr = ys @ e # zs" and "sequenceNumber e = q"
    and "\<forall>z \<in> set zs. sequenceNumber z \<noteq> q"
  shows "find_foundIndex q arr = int (length ys)"
  using assms
  by (simp add: find_foundIndex_def enumerate_append_eq fold_foundIndex_none)

lemma find_foundIndex_absent:
  assumes "\<forall>e \<in> set arr. sequenceNumber e \<noteq> q"
  shows "find_foundIndex q arr = - 1"
  using assms by (simp add: find_foundIndex_def fold_foundIndex_none)

lemma splice1_middle: "splice1 (length ys) (ys @ e # zs) = ys @ zs"
  by (simp add: splice1_def)

lemma filter_unique_middle:
  assumes "distinct (map f (ys @ e # zs))"
  shows "filter (\<lambda>x. f x \<noteq> f e) (ys @ e # zs) = ys @ zs"
proof -
  have "f e \<notin> f ` set ys" and "f e \<notin> f ` set zs"
    using assms by auto
  then have "\<forall>y \<in> set ys. f y \<noteq> f e" and "\<forall>z \<in> set zs. f z \<noteq> f e"
    by (metis imageI)+
  then show ?thesis by (simp add: filter_id_conv)
qed

text \<open>
  C2, as stated, fails: a successful acknowledgement resets no counter. The
  subscription \<open>subscription_one_sent\<close> holds the record with sequence number 1 and
  its life-time counter is 3; acknowledging 1 returns Good and empties the sent queue,
  and the life-time counter is still 3.
\<close>

theorem acknowledgeNotification_counters_counterexample:
  "outcome_value (acknowledgeNotification 1 subscription_one_sent) = Some Good
   \<and> map_option sent_notifications
       (outcome_state (acknowledgeNotification 1 subscription_one_sent)) = Some []
   \<and> map_option life_time_counter
       (outcome_state (acknowledgeNotification 1 subscription_one_sent)) = Some 3"
  by (simp add: acknowledgeNotification_def find_foundIndex_def enumerate_eq_zip splice1_def
      subscription_one_sent_def subscription_50_1_2_def record_1_def Let_def
      outcome_value_def outcome_state_def)

text \<open>
  C2, amended. When the sent queue holds a record with sequence number \<open>seq\<close>,
  \<^verbatim>\<open>acknowledgeNotification(seq)\<close> returns Good and removes that record (the last
  such record, were there several; with distinct sequence numbers the queue loses
  exactly the records numbered \<open>seq\<close>); the life-time counter, the keep-alive counter
  and every other field stay as they were. When no such record exists it returns
  BadSequenceNumberUnknown and leaves the whole subscription unchanged.
\<close>

theorem acknowledgeNotification_removes_record:
  "(seq \<in> sequenceNumber ` set (sent_notifications s) \<longrightarrow>
      (\<exists>ys e zs. sent_notifications s = ys @ e # zs \<and> sequenceNumber e = seq
          \<and> seq \<notin> sequenceNumber ` set zs
          \<and> acknowledgeNotification seq s = Returned Good (s\<lparr>sent_notifications := ys @ zs\<rparr>)))
   \<and> (seq \<in> sequenceNumber ` set (sent_notifications s)
        \<and> distinct (map sequenceNumber (sent_notifications s)) \<longrightarrow>
      acknowledgeNotification seq s =
        Returned Good
          (s\<lparr>sent_notifications := filter (\<lambda>e. sequenceNumber e \<noteq> seq) (sent_notifications s)\<rparr>))
   \<and> (seq \<notin> sequenceNumber ` set (sent_notifications s) \<longrightarrow>
      acknowledgeNotification seq s = Returned BadSequenceNumberUnknown s)"
proof (intro conjI impI)
  assume "seq \<notin> sequenceNumber ` set (sent_notifications s)"
  then have "\<forall>e \<in> set (sent_notifications s). sequenceNumber e \<noteq> seq" by auto
  then show "acknowledgeNotification seq s = Returned BadSequenceNumberUnknown s"
    by (simp add: acknowledgeNotification_def find_foundIndex_absent)
next
  assume "seq \<in> sequenceNumber ` set (sent_notifications s)"
  then have "\<exists>e \<in> set (sent_notifications s). sequenceNumber e = seq" by auto
  then obtain ys e zs where split: "sent_notifications s = ys @ e # zs"
    and e: "sequenceNumber e = seq" and zs: "\<forall>z \<in> set zs. sequenceNumber z \<noteq> seq"
    by (auto dest!: split_list_last_prop)
  have "acknowledgeNotification seq s = Returned Good (s\<lparr>sent_notifications := ys @ zs\<rparr>)"
    using find_foundIndex_last [OF split e zs] split
    by (simp add: acknowledgeNotification_def splice1_middle)
  moreover have "seq \<notin> sequenceNumber ` set zs"
    using zs by auto
  ultimately
  show "\<exists>ys e zs. sent_notifications s = ys @ e # zs \<and> sequenceNumber e = seq
          \<and> seq \<notin> sequenceNumber ` set zs
          \<and> acknowledgeNotification seq s = Returned Good (s\<lparr>sent_notifications := ys @ zs\<rparr>)"
    using split e by blast
next
  assume "seq \<in> sequenceNumber ` set (sent_notifications s)
          \<and> distinct (map sequenceNumber (sent_notifications s))"
  then have "\<exists>e \<in> set (sent_notifications s). sequenceNumber e = seq"
    and dist: "distinct (map sequenceNumber (sent_notifications s))" by auto
  then obtain ys e zs where split: "sent_notifications s = ys @ e # zs"
    and e: "sequenceNumber e = seq" and zs: "\<forall>z \<in> set zs. sequenceNumber z \<noteq> seq"
    by (auto dest!: split_list_last_prop)
  have ack: "acknowledgeNotification seq s = Returned Good (s\<lparr>sent_notifications := ys @ zs\<rparr>)"
    using find_foundIndex_last [OF split e zs] split
    by (simp add: acknowledgeNotification_def splice1_middle)
  have "filter (\<lambda>x. sequenceNumber x \<noteq> sequenceNumber e) (ys @ e # zs) = ys @ zs"
    using dist split by (intro filter_unique_middle) simp
  with ack split e
  show "acknowledgeNotification seq s =
        Returned Good
          (s\<lparr>sent_notifications := filter (\<lambda>e. sequenceNumber e \<noteq> seq) (sent_notifications s)\<rparr>)"
    by simp
qed

theorem acknowledgeNotification_removes_record_witness:
  "acknowledgeNotification 1 subscription_one_sent
     = Returned Good (subscription_one_sent\<lparr>sent_notifications := []\<rparr>)
   \<and> acknowledgeNotification 2 subscription_one_sent
     = Returned BadSequenceNumberUnknown subscription_one_sent"
proof -
  have sent: "sent_notifications subscription_one_sent = [record_1]"
    by (simp add: subscription_one_sent_def)
  have seq: "sequenceNumber record_1 = 1"
    by (simp add: record_1_def)
  from acknowledgeNotification_removes_record [of 1 subscription_one_sent]
       acknowledgeNotification_removes_record [of 2 subscription_one_sent]
  show ?thesis
    by (simp add: sent seq)
qed

subsection \<open>Available sequence numbers\<close>

text \<open>
  C8. In every state \<^verbatim>\<open>getAvailableSequenceNumbers()\<close> returns the sequence numbers of
  the messages in the sent queue, in queue order, followed by those of the messages in
  the pending queue, in queue order, and leaves the subscription as it was. Where every
  record carries the sequence number of its message, as every record made by
  \<^verbatim>\<open>addNotificationMessage\<close> does, these are the records' own sequence numbers.
\<close>

theorem getAvailableSequenceNumbers_sent_then_pending:
  "getAvailableSequenceNumbers s =
     Returned (map (\<lambda>e. msg_sequenceNumber (notification e)) (sent_notifications s)
                 @ map (\<lambda>e. msg_sequenceNumber (notification e)) (pending_notifications s)) s
   \<and> ((\<forall>e \<in> set (sent_notifications s) \<union> set (pending_notifications s).
          sequenceNumber e = msg_sequenceNumber (notification e)) \<longrightarrow>
      getAvailableSequenceNumbers s =
        Returned (map sequenceNumber (sent_notifications s)
                    @ map sequenceNumber (pending_notifications s)) s)"
  by (simp add: getAvailableSequenceNumbers_def getSequenceNumbers_def Let_def)

theorem getAvailableSequenceNumbers_sent_then_pending_witness:
  "getAvailableSequenceNumbers subscription_one_sent = Returned [1] subscription_one_sent"
  using getAvailableSequenceNumbers_sent_then_pending [of subscription_one_sent]
  by (simp add: subscription_one_sent_def subscription_50_1_2_def record_1_def)

subsection \<open>The tick\<close>

lemma lifeTimeHasExpired_returns:
  assumes "0 < lifeTimeCount s"
  shows "lifeTimeHasExpired s = Returned (lifeTimeCount s \<le> life_time_counter s) s"
  using assms by (simp add: lifeTimeHasExpired_def assert_that_def)

lemma tick_no_request_returns:
  assumes "pendingPublishRequestCount (publishEngine s) = 0"
    and "0 < lifeTimeCount s"
    and "\<not> lifeTimeCount s \<le> life_time_counter s + 1"
  shows "tick s =
           Returned ()
             (s\<lparr>publishIntervalCount := publishIntervalCount s + 1,
                life_time_counter := life_time_counter s + 1,
                state := LATE,
                effects := effects s
                  @ (if has_on_tick (publishEngine s) then [Engine_on_tick] else [])
                  @ [Emit_perform_update]\<rparr>)"
  using assms
  by (simp add: tick_def Let_def log_effect_def prepareNotification_def
      increaseLifeTimeCounter_def discardOldSentNotifications_noop
      lifeTimeHasExpired_returns)

text \<open>
  The subscription \<open>subscription_one_sent\<close> is reached from the constructed one: a
  message is made and handed over, then three ticks find no publish request.
\<close>

lemma subscription_one_sent_reached:
  "and_then (addNotificationMessage [DataChangeNotification []] subscription_50_1_2) (\<lambda>_ s.
   and_then (popNotificationToSend s) (\<lambda>_ s.
   and_then (tick s) (\<lambda>_ s.
   and_then (tick s) (\<lambda>_ s. tick s))))
   = Returned () subscription_one_sent"
  by (simp add: addNotificationMessage_returns popNotificationToSend_returns
      tick_no_request_returns subscription_50_1_2_def engine_idle_def
      subscription_one_sent_def record_1_def)

text \<open>The other two subscriptions are what the constructor returns.\<close>

lemma subscription_refused_constructed:
  "new_Subscription (options_50_1_2\<lparr>opt_publishEngine := engine_refusing\<rparr>)
     = Returned () subscription_refused"
  unfolding new_Subscription_returns
  by (simp add: options_50_1_2_def subscription_refused_def subscription_50_1_2_def
      adjust_publishing_interval_clamp adjust_maxKeepAliveCount_clamp adjust_lifeTimeCount_eq
      js_or_def adjust_maxNotificationsPerPublish_def adjust_publishinEnable_def)

lemma subscription_disabled_constructed:
  "new_Subscription (options_50_1_2\<lparr>opt_publishingEnabled := Some False\<rparr>)
     = Returned () subscription_disabled"
  unfolding new_Subscription_returns
  by (simp add: options_50_1_2_def subscription_disabled_def subscription_50_1_2_def
      adjust_publishing_interval_clamp adjust_maxKeepAliveCount_clamp adjust_lifeTimeCount_eq
      js_or_def adjust_maxNotificationsPerPublish_def adjust_publishinEnable_def)

text \<open>
  C10. On a tick in which the life time has not expired and the Publish Engine reports
  no pending publish request, the subscription returns in state LATE: the tick counted
  the publishing interval and the life-time counter, emitted \<^verbatim>\<open>perform_update\<close>
  (after the engine's tick hook, if it has one) and did nothing else. The keep-alive
  counter is as before and no keep-alive response was asked of the engine, whatever the
  pending queue and the publishing mode are.
\<close>

theorem tick_without_publish_request:
  assumes "pendingPublishRequestCount (publishEngine s) = 0"
    and "0 < lifeTimeCount s"
    and "\<not> lifeTimeCount s \<le> life_time_counter s + 1"
  shows "tick s =
           Returned ()
             (s\<lparr>publishIntervalCount := publishIntervalCount s + 1,
                life_time_counter := life_time_counter s + 1,
                state := LATE,
                effects := effects s
                  @ (if has_on_tick (publishEngine s) then [Engine_on_tick] else [])
                  @ [Emit_perform_update]\<rparr>)
       \<and> (\<exists>s'. tick s = Returned () s' \<and> state s' = LATE
              \<and> keep_alive_counter s' = keep_alive_counter s
              \<and> life_time_counter s' = life_time_counter s + 1
              \<and> publishEngine s' = publishEngine s
              \<and> (\<forall>e \<in> set (drop (length (effects s)) (effects s')).
                    e = Engine_on_tick \<or> e = Emit_perform_update))"
proof -
  have run: "tick s =
           Returned ()
             (s\<lparr>publishIntervalCount := publishIntervalCount s + 1,
                life_time_counter := life_time_counter s + 1,
                state := LATE,
                effects := effects s
                  @ (if has_on_tick (publishEngine s) then [Engine_on_tick] else [])
                  @ [Emit_perform_update]\<rparr>)"
    using assms by (rule tick_no_request_returns)
  then show ?thesis by auto
qed

theorem tick_without_publish_request_witness:
  "pendingPublishRequestCount (publishEngine subscription_disabled) = 0
   \<and> pending_notifications subscription_disabled = []
   \<and> publishingEnabled subscription_disabled = False
   \<and> tick subscription_disabled =
       Returned ()
         (subscription_disabled
            \<lparr>publishIntervalCount := 1, life_time_counter := 1, state := LATE,
             effects := [SetInterval 100, Registry_register, Emit_perform_update]\<rparr>)"
proof -
  have a: "pendingPublishRequestCount (publishEngine subscription_disabled) = 0"
    by (simp add: subscription_disabled_def subscription_50_1_2_def engine_idle_def)
  have b: "0 < lifeTimeCount subscription_disabled"
    by (simp add: subscription_disabled_def subscription_50_1_2_def)
  have c: "\<not> lifeTimeCount subscription_disabled \<le> life_time_counter subscription_disabled + 1"
    by (simp add: subscription_disabled_def subscription_50_1_2_def)
  from tick_without_publish_request [OF a b c] a
  show ?thesis
    by (simp add: subscription_disabled_def subscription_50_1_2_def engine_idle_def)
qed

text \<open>
  C3. The code aborts where the claim says it goes LATE. The subscription constructed
  from 50, 1, 2 has its keep-alive counter at maxKeepAliveCount. On an engine with one
  publish request parked that refuses the keep-alive, its first tick ends in an
  assertion failure and the state is still NORMAL. Called on the idle engine (no
  publish request, keep-alive refused), \<^verbatim>\<open>process_subscription\<close> ends the same way.
\<close>

theorem keep_alive_refused_assertion_failure:
  "outcome_failure (tick subscription_refused) = Some AssertionError
   \<and> map_option state (outcome_state (tick subscription_refused)) = Some NORMAL
   \<and> outcome_failure (process_subscription subscription_50_1_2) = Some AssertionError
   \<and> map_option state (outcome_state (process_subscription subscription_50_1_2)) = Some NORMAL"
  by (simp add: tick_def process_subscription_def Let_def log_effect_def
      prepareNotification_def collectNotificationData_def object_keys_def
      collect_while.simps increaseLifeTimeCounter_def discardOldSentNotifications_noop
      lifeTimeHasExpired_returns hasPendingNotifications_def pendingNotificationsCount_def
      increaseKeepAliveCounter_def keepAliveCounterHasExpired_def sendKeepAliveResponse_def
      send_keep_alive_response_def get_future_sequence_number_def assert_that_def
      subscription_refused_def subscription_50_1_2_def engine_refusing_def engine_idle_def
      outcome_failure_def outcome_state_def)

subsection \<open>Termination of the subscription\<close>

lemma object_keys_set: "set (object_keys obj) = fst ` set obj"
  by (simp add: object_keys_def)

lemma object_keys_distinct: "distinct (object_keys obj)"
  by (simp add: object_keys_def)

lemma delete_as_filter: "AList.delete k obj = filter (\<lambda>p. fst p \<noteq> k) obj"
  by (induction obj) auto

lemma remove_each_returns:
  assumes "distinct keys" and "set keys \<subseteq> fst ` set (monitoredItems s)"
  shows "remove_each keys s =
     Returned ()
       (s\<lparr>monitoredItems := filter (\<lambda>p. fst p \<notin> set keys) (monitoredItems s),
          effects := effects s @ map MonitoredItem_terminate keys\<rparr>)"
  using assms
proof (induction keys arbitrary: s)
  case Nil
  show ?case by simp
next
  case (Cons key keys)
  from Cons.prems have "key \<in> fst ` set (monitoredItems s)" by simp
  then obtain item where item: "map_of (monitoredItems s) key = Some item"
    by (metis map_of_eq_None_iff not_Some_eq)
  let ?s1 = "s\<lparr>monitoredItems := filter (\<lambda>p. fst p \<noteq> key) (monitoredItems s),
               effects := effects s @ [MonitoredItem_terminate key]\<rparr>"
  have step: "removeMonitoredItem key s = Returned Good ?s1"
    using item by (simp add: removeMonitoredItem_def Let_def log_effect_def delete_as_filter)
  have sub: "set keys \<subseteq> fst ` set (monitoredItems ?s1)"
  proof
    fix x assume "x \<in> set keys"
    with Cons.prems have "x \<noteq> key" and "x \<in> fst ` set (monitoredItems s)" by auto
    then obtain p where "p \<in> set (monitoredItems s)" and "fst p = x" by auto
    with \<open>x \<noteq> key\<close> show "x \<in> fst ` set (monitoredItems ?s1)" by force
  qed
  have "distinct keys" using Cons.prems by simp
  from Cons.IH [OF this sub]
  have "remove_each keys ?s1 =
     Returned ()
       (?s1\<lparr>monitoredItems := filter (\<lambda>p. fst p \<notin> set keys) (monitoredItems ?s1),
            effects := effects ?s1 @ map MonitoredItem_terminate keys\<rparr>)" .
  moreover have "filter (\<lambda>p. fst p \<notin> set keys) (filter (\<lambda>p. fst p \<noteq> key) (monitoredItems s))
      = filter (\<lambda>p. fst p \<notin> set (key # keys)) (monitoredItems s)"
    by (auto intro: filter_cong)
  ultimately show ?case
    using step by (simp add: assert_that_def)
qed

lemma remove_all_keys:
  "remove_each (object_keys (monitoredItems s)) s =
     Returned ()
       (s\<lparr>monitoredItems := [],
          effects := effects s @ map MonitoredItem_terminate (object_keys (monitoredItems s))\<rparr>)"
proof -
  have "filter (\<lambda>p. fst p \<notin> set (object_keys (monitoredItems s))) (monitoredItems s) = []"
    by (simp add: object_keys_set filter_empty_conv)
  with remove_each_returns [OF object_keys_distinct, of "monitoredItems s" s]
  show ?thesis by (simp add: object_keys_set)
qed

lemma terminate_returns:
  assumes "state s \<noteq> CLOSED"
  shows "terminate s =
     Returned ()
       (s\<lparr>timerId := None,
          monitoredItems := [],
          sequence_number_generator := sequence_number_generator s + 1,
          pending_notifications := pending_notifications s @
            [\<lparr>notification = \<lparr>msg_sequenceNumber = sequence_number_generator s,
                              notificationData = [StatusChangeNotification BadTimeout]\<rparr>,
              start_tick = publishIntervalCount s,
              sequenceNumber = sequence_number_generator s\<rparr>],
          state := CLOSED,
          effects := effects s
            @ (if timerId s = None then [] else [ClearInterval, Registry_unregister])
            @ map MonitoredItem_terminate (object_keys (monitoredItems s))
            @ [Emit_terminated]\<rparr>)"
proof -
  have none: "object_keys ([] :: (nat \<times> MonitoredItem) list) = []"
    by (simp add: object_keys_def)
  have "terminate s =
     Returned ()
       ((stop_timer s)\<lparr>monitoredItems := [],
          sequence_number_generator := sequence_number_generator (stop_timer s) + 1,
          pending_notifications := pending_notifications (stop_timer s) @
            [\<lparr>notification = \<lparr>msg_sequenceNumber = sequence_number_generator (stop_timer s),
                              notificationData = [StatusChangeNotification BadTimeout]\<rparr>,
              start_tick = publishIntervalCount (stop_timer s),
              sequenceNumber = sequence_number_generator (stop_timer s)\<rparr>],
          state := CLOSED,
          effects := effects (stop_timer s)
            @ map MonitoredItem_terminate (object_keys (monitoredItems (stop_timer s)))
            @ [Emit_terminated]\<rparr>)"
    using assms
    by (simp add: terminate_def Let_def assert_that_def remove_all_keys monitoredItemCount_def
        none addNotificationMessage_returns log_effect_def)
  then show ?thesis
    by (simp add: stop_timer_eq)
qed

text \<open>
  C9. The first \<^verbatim>\<open>terminate()\<close> on a subscription that is not CLOSED returns with the
  timer stopped, every monitored item terminated (one call per key) and removed, the
  final StatusChange(BadTimeout) message at the tail of the pending queue and the state
  CLOSED; \<^verbatim>\<open>terminate()\<close> on a CLOSED subscription returns it unchanged; so calling
  it twice is calling it once.
\<close>

theorem terminate_idempotent:
  "(state s \<noteq> CLOSED \<longrightarrow>
      (\<exists>s'. terminate s = Returned () s'
         \<and> timerId s' = None
         \<and> monitoredItems s' = []
         \<and> pending_notifications s' = pending_notifications s @
             [\<lparr>notification = \<lparr>msg_sequenceNumber = sequence_number_generator s,
                               notificationData = [StatusChangeNotification BadTimeout]\<rparr>,
               start_tick = publishIntervalCount s,
               sequenceNumber = sequence_number_generator s\<rparr>]
         \<and> state s' = CLOSED
         \<and> effects s' = effects s
             @ (if timerId s = None then [] else [ClearInterval, Registry_unregister])
             @ map MonitoredItem_terminate (object_keys (monitoredItems s))
             @ [Emit_terminated]
         \<and> terminate s' = Returned () s'))
   \<and> (state s = CLOSED \<longrightarrow> terminate s = Returned () s)
   \<and> and_then (terminate s) (\<lambda>_ s'. terminate s') = terminate s"
proof (cases "state s = CLOSED")
  case True
  then show ?thesis by (simp add: terminate_def)
next
  case False
  have closed: "state s' = CLOSED \<Longrightarrow> terminate s' = Returned () s'" for s'
    by (simp add: terminate_def)
  from False show ?thesis
    by (simp add: terminate_returns closed)
qed

theorem terminate_idempotent_witness:
  "state subscription_two_items \<noteq> CLOSED
   \<and> (\<exists>s'. terminate subscription_two_items = Returned () s'
        \<and> timerId s' = None \<and> monitoredItems s' = [] \<and> state s' = CLOSED
        \<and> map (\<lambda>e. notificationData (notification e)) (pending_notifications s')
            = [[StatusChangeNotification BadTimeout]]
        \<and> effects s' = [SetInterval 100, Registry_register, ClearInterval, Registry_unregister,
                         MonitoredItem_terminate 1, MonitoredItem_terminate 2, Emit_terminated]
        \<and> terminate s' = Returned () s')"
proof -
  have ne: "state subscription_two_items \<noteq> CLOSED"
    by (simp add: subscription_two_items_def subscription_50_1_2_def)
  from terminate_idempotent [of subscription_two_items] ne
  show ?thesis
    by (auto simp: object_keys_def subscription_two_items_def subscription_50_1_2_def)
qed

subsection \<open>Filter validation\<close>

lemma validateFilter_spec:
  "validateFilter filter0 item node = Inr (filter_validation_status filter0 (attributeId item) node)"
  by (auto simp: validateFilter_def validateDataChangeFilter_def filter_validation_status_def
      is_EventFilter_def is_DataChangeFilter_def
      split: option.splits MonitoringFilter.splits)

text \<open>
  What \<^verbatim>\<open>__validateDataChangeFilter\<close> answers for a DataChangeFilter on an item that
  monitors the attribute Value: BadNodeIdInvalid if the node is not a Variable; else
  BadFilterNotAllowed if the node's data type is not a subtype of Number; else, for a
  Percent dead band whose value is a number, Good exactly when the value lies strictly
  between 0 and 100 and BadDeadbandFilterInvalid otherwise; an infinite Percent dead band
  is refused; one that is NaN is accepted.
\<close>

lemma validateDataChangeFilter_status:
  assumes "attributeId item = Value"
  shows "validateFilter (Some (DataChangeFilter deadbandType deadbandValue)) item node
           = validateDataChangeFilter (DataChangeFilter deadbandType deadbandValue) item node"
    and "\<not> is_UAVariable node \<Longrightarrow>
          validateDataChangeFilter (DataChangeFilter deadbandType deadbandValue) item node
            = Inr BadNodeIdInvalid"
    and "is_UAVariable node \<Longrightarrow> \<not> isSupertypeOf node (dataType node) Number \<Longrightarrow>
          validateDataChangeFilter (DataChangeFilter deadbandType deadbandValue) item node
            = Inr BadFilterNotAllowed"
    and "is_UAVariable node \<Longrightarrow> isSupertypeOf node (dataType node) Number \<Longrightarrow>
          validateDataChangeFilter (DataChangeFilter Percent (Finite r)) item node
            = (if 0 < r \<and> r < 100 then Inr Good else Inr BadDeadbandFilterInvalid)"
    and "is_UAVariable node \<Longrightarrow> isSupertypeOf node (dataType node) Number \<Longrightarrow>
          validateDataChangeFilter (DataChangeFilter Percent NegativeInfinity) item node
            = Inr BadDeadbandFilterInvalid"
    and "is_UAVariable node \<Longrightarrow> isSupertypeOf node (dataType node) Number \<Longrightarrow>
          validateDataChangeFilter (DataChangeFilter Percent PositiveInfinity) item node
            = Inr BadDeadbandFilterInvalid"
    and "is_UAVariable node \<Longrightarrow> isSupertypeOf node (dataType node) Number \<Longrightarrow>
          validateDataChangeFilter (DataChangeFilter Percent NaN) item node = Inr Good"
    and "is_UAVariable node \<Longrightarrow> isSupertypeOf node (dataType node) Number \<Longrightarrow>
          deadbandType \<noteq> Percent \<Longrightarrow>
          validateDataChangeFilter (DataChangeFilter deadbandType deadbandValue) item node
            = Inr Good"
  using assms
  by (auto simp: validateFilter_def validateDataChangeFilter_def is_EventFilter_def
      is_DataChangeFilter_def js_double_le_def js_double_ge_def)

lemma validateFilter_examples:
  "validateFilter (Some (DataChangeFilter Percent (Finite 50)))
       (itemToMonitor (request_on 1 Value None)) variable_node = Inr Good"
  "validateFilter (Some (DataChangeFilter Percent (Finite 100)))
       (itemToMonitor (request_on 1 Value None)) variable_node = Inr BadDeadbandFilterInvalid"
  "validateFilter (Some (DataChangeFilter Percent (Finite 0)))
       (itemToMonitor (request_on 1 Value None)) variable_node = Inr BadDeadbandFilterInvalid"
  "validateFilter (Some (DataChangeFilter Absolute (Finite 500)))
       (itemToMonitor (request_on 1 Value None)) variable_node = Inr Good"
  "validateFilter (Some (DataChangeFilter Percent (Finite 50)))
       (itemToMonitor (request_on 3 Value None)) string_variable_node = Inr BadFilterNotAllowed"
  "validateFilter (Some (DataChangeFilter Percent (Finite 50)))
       (itemToMonitor (request_on 2 Value None)) object_node = Inr BadNodeIdInvalid"
  by (simp_all add: validateFilter_spec filter_validation_status_def request_on_def
      variable_node_def string_variable_node_def object_node_def Number_def
      js_double_le_def js_double_ge_def)

text \<open>
  C7. The code accepts a Percent dead band that does not lie strictly between 0 and 100.
  On an item that monitors the attribute Value of a Variable whose data type is a subtype
  of Number, a DataChangeFilter with the dead band type Percent and the dead band value
  NaN passes \<^verbatim>\<open>__validateDataChangeFilter\<close> and \<^verbatim>\<open>__validateFilter\<close> with Good, where
  the claim gives BadDeadbandFilterInvalid: both \<^verbatim>\<open>NaN <= 0\<close> and \<^verbatim>\<open>NaN >= 100\<close>
  are false.
\<close>

theorem percent_deadband_NaN_accepted:
  "attributeId (itemToMonitor (request_on 1 Value None)) = Value
   \<and> is_UAVariable variable_node
   \<and> isSupertypeOf variable_node (dataType variable_node) Number
   \<and> validateDataChangeFilter (DataChangeFilter Percent NaN)
        (itemToMonitor (request_on 1 Value None)) variable_node = Inr Good
   \<and> validateFilter (Some (DataChangeFilter Percent NaN))
        (itemToMonitor (request_on 1 Value None)) variable_node = Inr Good"
  by (simp add: validateFilter_def validateDataChangeFilter_def is_EventFilter_def
      is_DataChangeFilter_def js_double_le_def js_double_ge_def request_on_def
      variable_node_def Number_def)

subsection \<open>Creating a monitored item\<close>

lemma spec_validation_not_Good: "spec_validation ext addressSpace request \<noteq> Some Good"
  by (auto simp: spec_validation_def Let_def split: option.splits if_splits)

lemma spec_validation_None_node:
  assumes "spec_validation ext addressSpace request = None"
  shows "\<exists>node. findNode addressSpace (nodeId (itemToMonitor request)) = Some node"
  using assms by (auto simp: spec_validation_def Let_def split: option.splits)

lemma createMonitoredItem_rejects:
  assumes "spec_validation ext addressSpace request = Some sc"
  shows "createMonitoredItem ext addressSpace ts request s = Returned (handle_error sc) s"
  using assms
  by (auto simp: spec_validation_def createMonitoredItem_def Let_def validateFilter_spec
      split: option.splits if_splits)

lemma adjustSamplingInterval_eq:
  "adjustSamplingInterval ext x node s =
     (if sampling_assert_holds ext x node
      then Returned (spec_samplingInterval ext x node (publishingInterval s)) s
      else Threw AssertionError s)"
  by (auto simp: adjustSamplingInterval_def sampling_assert_holds_def spec_samplingInterval_def
      assert_that_def Let_def)

lemma createMonitoredItemStep2_eq:
  "createMonitoredItemStep2 ext ts request node s =
     (if \<not> sampling_assert_holds ext (samplingInterval (requestedParameters request)) node
      then Threw AssertionError (s\<lparr>monitoredItemIdCounter := monitoredItemIdCounter s + 1\<rparr>)
      else if item_monitoredItemId (created_item ext ts request node s) \<noteq> monitoredItemIdCounter s + 1
      then Threw AssertionError (s\<lparr>monitoredItemIdCounter := monitoredItemIdCounter s + 1\<rparr>)
      else Returned
             \<lparr>statusCode = Good, monitoredItemId = monitoredItemIdCounter s + 1,
              revisedSamplingInterval = item_samplingInterval (created_item ext ts request node s),
              revisedQueueSize = item_queueSize (created_item ext ts request node s),
              filterResult = process_filter ext node (filter' (requestedParameters request))\<rparr>
             (s\<lparr>monitoredItemIdCounter := monitoredItemIdCounter s + 1,
                monitoredItems := AList.update (monitoredItemIdCounter s + 1)
                   (created_item ext ts request node s) (monitoredItems s)\<rparr>))"
  by (simp add: createMonitoredItemStep2_def Let_def adjustSamplingInterval_eq assert_that_def
      created_item_def)

lemma createMonitoredItem_validated:
  assumes "spec_validation ext addressSpace request = None"
    and "findNode addressSpace (nodeId (itemToMonitor request)) = Some node"
  shows "createMonitoredItem ext addressSpace ts request s =
           and_then (createMonitoredItemStep2 ext ts request node s)
             (\<lambda>monitoredItemCreateResult s.
                and_then (assert_that (statusCode monitoredItemCreateResult = Good) s)
                  (\<lambda>_ s.
                     case map_of (monitoredItems s) (monitoredItemId monitoredItemCreateResult) of
                       None \<Rightarrow> Threw AssertionError s
                     | Some monitoredItem \<Rightarrow>
                         (let key = monitoredItemId monitoredItemCreateResult;
                              monitoredItem1 = monitoredItem\<lparr>item_node := Some node\<rparr>;
                              s = log_effect (Emit_monitoredItem key) s;
                              monitoredItem2 = on_monitoredItem ext monitoredItem1;
                              s = s\<lparr>monitoredItems :=
                                      AList.update key monitoredItem2 (monitoredItems s)\<rparr>
                          in and_then (createMonitoredItemStep3 key monitoredItem2 request s)
                               (\<lambda>_ s. Returned monitoredItemCreateResult s))))"
  using assms
  by (auto simp: spec_validation_def createMonitoredItem_def Let_def validateFilter_spec
      split: if_splits)

lemma createMonitoredItem_accepts:
  assumes "spec_validation ext addressSpace request = None"
    and "findNode addressSpace (nodeId (itemToMonitor request)) = Some node"
    and "creation_asserts_hold ext ts request node s"
  shows "createMonitoredItem ext addressSpace ts request s =
     Returned
       \<lparr>statusCode = Good, monitoredItemId = monitoredItemIdCounter s + 1,
        revisedSamplingInterval = item_samplingInterval (created_item ext ts request node s),
        revisedQueueSize = item_queueSize (created_item ext ts request node s),
        filterResult = process_filter ext node (filter' (requestedParameters request))\<rparr>
       (s\<lparr>monitoredItemIdCounter := monitoredItemIdCounter s + 1,
          monitoredItems :=
            AList.update (monitoredItemIdCounter s + 1)
              ((on_monitoredItem ext ((created_item ext ts request node s)\<lparr>item_node := Some node\<rparr>))
                 \<lparr>item_monitoringMode := monitoringMode request\<rparr>)
              (monitoredItems s),
          effects := effects s @ [Emit_monitoredItem (monitoredItemIdCounter s + 1),
            MonitoredItem_setMonitoringMode (monitoredItemIdCounter s + 1) (monitoringMode request)]\<rparr>)"
  using assms(3)
  unfolding createMonitoredItem_validated [OF assms(1,2)] createMonitoredItemStep2_eq
  by (simp add: creation_asserts_hold_def Let_def assert_that_def
      update_conv' createMonitoredItemStep3_def log_effect_def)

lemma createMonitoredItem_throws:
  assumes "spec_validation ext addressSpace request = None"
    and "findNode addressSpace (nodeId (itemToMonitor request)) = Some node"
    and "\<not> creation_asserts_hold ext ts request node s"
  shows "\<exists>s1. createMonitoredItem ext addressSpace ts request s = Threw AssertionError s1"
  using assms(3)
  unfolding createMonitoredItem_validated [OF assms(1,2)] createMonitoredItemStep2_eq
  by (auto simp: creation_asserts_hold_def Let_def assert_that_def
      update_conv' createMonitoredItemStep3_def log_effect_def)

lemma createMonitoredItem_Good_properties:
  assumes run: "createMonitoredItem ext addressSpace ts request s = Returned r s'"
    and good: "statusCode r = Good"
  shows "spec_validation ext addressSpace request = None
     \<and> monitoredItemId r = monitoredItemIdCounter s + 1
     \<and> monitoredItemIdCounter s' = monitoredItemIdCounter s + 1
     \<and> (\<exists>item. map_of (monitoredItems s') = (map_of (monitoredItems s))(monitoredItemId r \<mapsto> item))"
proof (cases "spec_validation ext addressSpace request")
  case (Some sc)
  from createMonitoredItem_rejects [OF Some, of ts s] run good
  have "sc = Good" by (auto simp: handle_error_def)
  with Some spec_validation_not_Good show ?thesis by blast
next
  case None
  then obtain node where node: "findNode addressSpace (nodeId (itemToMonitor request)) = Some node"
    using spec_validation_None_node by blast
  show ?thesis
  proof (cases "creation_asserts_hold ext ts request node s")
    case True
    from createMonitoredItem_accepts [OF None node True] run
    show ?thesis
      using None by (auto simp: update_conv')
  next
    case False
    from createMonitoredItem_throws [OF None node False] run
    show ?thesis by auto
  qed
qed

lemma createMonitoredItem_not_Good_unchanged:
  assumes run: "createMonitoredItem ext addressSpace ts request s = Returned r s'"
    and bad: "statusCode r \<noteq> Good"
  shows "s' = s \<and> spec_validation ext addressSpace request = Some (statusCode r)"
proof (cases "spec_validation ext addressSpace request")
  case (Some sc)
  from createMonitoredItem_rejects [OF Some, of ts s] run
  show ?thesis using Some by (auto simp: handle_error_def)
next
  case None
  then obtain node where node: "findNode addressSpace (nodeId (itemToMonitor request)) = Some node"
    using spec_validation_None_node by blast
  show ?thesis
  proof (cases "creation_asserts_hold ext ts request node s")
    case True
    from createMonitoredItem_accepts [OF None node True] run bad
    show ?thesis by auto
  next
    case False
    from createMonitoredItem_throws [OF None node False] run
    show ?thesis by auto
  qed
qed

lemma fresh_key:
  assumes "\<forall>k \<in> fst ` set obj. k \<le> (c :: nat)"
  shows "map_of obj (c + 1) = None"
proof -
  have "c + 1 \<notin> fst ` set obj"
    using assms by auto
  then show ?thesis by (simp add: map_of_eq_None_iff)
qed

text \<open>
  C6. \<^verbatim>\<open>createMonitoredItem\<close> validates in the order of the specification
  (\<open>spec_validation\<close>: unknown node, Value on a node that is no Variable, the attribute
  INVALID, a malformed index range, a data encoding name on an attribute other than
  Value, an unrecognised data encoding, filter validation): when a check fails it returns
  the result that carries the status of the first failing check and leaves the
  subscription as it was. A result whose status is not Good comes only so. A Good result
  comes only when every check passed; it carries the id following the counter, the counter
  has advanced to it, the registry is the old one with an item under that id, and the id
  is fresh where no registered id exceeded the counter. When every check passes and the
  assertions of the creation hold, such a Good result is returned.
\<close>

theorem createMonitoredItem_validation_order:
  "(spec_validation ext addressSpace request = Some sc \<longrightarrow>
      createMonitoredItem ext addressSpace ts request s = Returned (handle_error sc) s)
   \<and> (createMonitoredItem ext addressSpace ts request s = Returned r s' \<and> statusCode r \<noteq> Good \<longrightarrow>
      s' = s \<and> spec_validation ext addressSpace request = Some (statusCode r))
   \<and> (createMonitoredItem ext addressSpace ts request s = Returned r s' \<and> statusCode r = Good \<longrightarrow>
      spec_validation ext addressSpace request = None
      \<and> monitoredItemId r = monitoredItemIdCounter s + 1
      \<and> monitoredItemIdCounter s' = monitoredItemIdCounter s + 1
      \<and> (\<exists>item. map_of (monitoredItems s') = (map_of (monitoredItems s))(monitoredItemId r \<mapsto> item))
      \<and> ((\<forall>k \<in> fst ` set (monitoredItems s). k \<le> monitoredItemIdCounter s) \<longrightarrow>
           map_of (monitoredItems s) (monitoredItemId r) = None))
   \<and> (spec_validation ext addressSpace request = None
        \<and> findNode addressSpace (nodeId (itemToMonitor request)) = Some node
        \<and> creation_asserts_hold ext ts request node s \<longrightarrow>
      (\<exists>r' s''. createMonitoredItem ext addressSpace ts request s = Returned r' s''
          \<and> statusCode r' = Good))"
proof (intro conjI impI)
  assume "spec_validation ext addressSpace request = Some sc"
  then show "createMonitoredItem ext addressSpace ts request s = Returned (handle_error sc) s"
    by (rule createMonitoredItem_rejects)
next
  assume a: "createMonitoredItem ext addressSpace ts request s = Returned r s' \<and> statusCode r \<noteq> Good"
  then show "s' = s" and "spec_validation ext addressSpace request = Some (statusCode r)"
    using createMonitoredItem_not_Good_unchanged by blast+
next
  assume a: "createMonitoredItem ext addressSpace ts request s = Returned r s' \<and> statusCode r = Good"
  then have p: "spec_validation ext addressSpace request = None
     \<and> monitoredItemId r = monitoredItemIdCounter s + 1
     \<and> monitoredItemIdCounter s' = monitoredItemIdCounter s + 1
     \<and> (\<exists>item. map_of (monitoredItems s') = (map_of (monitoredItems s))(monitoredItemId r \<mapsto> item))"
    using createMonitoredItem_Good_properties by blast
  from p show "spec_validation ext addressSpace request = None" by simp
  from p show "monitoredItemId r = monitoredItemIdCounter s + 1" by simp
  from p show "monitoredItemIdCounter s' = monitoredItemIdCounter s + 1" by simp
  from p show "\<exists>item. map_of (monitoredItems s') = (map_of (monitoredItems s))(monitoredItemId r \<mapsto> item)"
    by blast
  assume "\<forall>k \<in> fst ` set (monitoredItems s). k \<le> monitoredItemIdCounter s"
  from fresh_key [OF this] p show "map_of (monitoredItems s) (monitoredItemId r) = None"
    by simp
next
  assume "spec_validation ext addressSpace request = None
        \<and> findNode addressSpace (nodeId (itemToMonitor request)) = Some node
        \<and> creation_asserts_hold ext ts request node s"
  then show "\<exists>r' s''. createMonitoredItem ext addressSpace ts request s = Returned r' s''
          \<and> statusCode r' = Good"
    using createMonitoredItem_accepts [of ext addressSpace request node ts s] by simp
qed

theorem createMonitoredItem_validation_order_witness:
  "createMonitoredItem externals_0 address_space_0 Both (request_on 99 Value None)
       subscription_50_1_2
     = Returned (handle_error BadNodeIdUnknown) subscription_50_1_2
   \<and> createMonitoredItem externals_0 address_space_0 Both (request_on 2 Value None)
       subscription_50_1_2
     = Returned (handle_error BadAttributeIdInvalid) subscription_50_1_2
   \<and> createMonitoredItem externals_0 address_space_0 Both (request_on 2 INVALID None)
       subscription_50_1_2
     = Returned (handle_error BadAttributeIdInvalid) subscription_50_1_2
   \<and> createMonitoredItem externals_0 address_space_0 Both
       (request_on 1 (OtherAttribute 4) (Some AggregateFilter)) subscription_50_1_2
     = Returned (handle_error BadFilterNotAllowed) subscription_50_1_2
   \<and> (\<exists>r s'. createMonitoredItem externals_0 address_space_0 Both (request_on 1 Value None)
                 subscription_50_1_2 = Returned r s'
          \<and> statusCode r = Good \<and> monitoredItemId r = 1 \<and> monitoredItemIdCounter s' = 1)"
proof -
  note defs = spec_validation_def address_space_0_def request_on_def externals_0_def
    variable_node_def object_node_def js_truthy_string_def filter_validation_status_def Let_def
  have v1: "spec_validation externals_0 address_space_0 (request_on 99 Value None)
              = Some BadNodeIdUnknown"
    by (simp add: defs)
  have v2: "spec_validation externals_0 address_space_0 (request_on 2 Value None)
              = Some BadAttributeIdInvalid"
    by (simp add: defs)
  have v3: "spec_validation externals_0 address_space_0 (request_on 2 INVALID None)
              = Some BadAttributeIdInvalid"
    by (simp add: defs)
  have v4: "spec_validation externals_0 address_space_0
              (request_on 1 (OtherAttribute 4) (Some AggregateFilter)) = Some BadFilterNotAllowed"
    by (simp add: defs)
  have v5: "spec_validation externals_0 address_space_0 (request_on 1 Value None) = None"
    by (simp add: defs)
  have n5: "findNode address_space_0 (nodeId (itemToMonitor (request_on 1 Value None)))
              = Some variable_node"
    by (simp add: address_space_0_def request_on_def)
  have a5: "creation_asserts_hold externals_0 Both (request_on 1 Value None) variable_node
              subscription_50_1_2"
    by (simp add: creation_asserts_hold_def sampling_assert_holds_def created_item_def
        request_on_def externals_0_def Let_def subscription_50_1_2_def)
  have c5: "monitoredItemIdCounter subscription_50_1_2 = 0"
    by (simp add: subscription_50_1_2_def)
  let ?create = "createMonitoredItem externals_0 address_space_0 Both"
  have r1: "?create (request_on 99 Value None) subscription_50_1_2
              = Returned (handle_error BadNodeIdUnknown) subscription_50_1_2"
    using createMonitoredItem_validation_order
      [where ext = externals_0 and addressSpace = address_space_0
         and request = "request_on 99 Value None" and sc = BadNodeIdUnknown] v1
    by blast
  have r2: "?create (request_on 2 Value None) subscription_50_1_2
              = Returned (handle_error BadAttributeIdInvalid) subscription_50_1_2"
    using createMonitoredItem_validation_order
      [where ext = externals_0 and addressSpace = address_space_0
         and request = "request_on 2 Value None" and sc = BadAttributeIdInvalid] v2
    by blast
  have r3: "?create (request_on 2 INVALID None) subscription_50_1_2
              = Returned (handle_error BadAttributeIdInvalid) subscription_50_1_2"
    using createMonitoredItem_validation_order
      [where ext = externals_0 and addressSpace = address_space_0
         and request = "request_on 2 INVALID None" and sc = BadAttributeIdInvalid] v3
    by blast
  have r4: "?create (request_on 1 (OtherAttribute 4) (Some AggregateFilter)) subscription_50_1_2
              = Returned (handle_error BadFilterNotAllowed) subscription_50_1_2"
    using createMonitoredItem_validation_order
      [where ext = externals_0 and addressSpace = address_space_0
         and request = "request_on 1 (OtherAttribute 4) (Some AggregateFilter)"
         and sc = BadFilterNotAllowed] v4
    by blast
  obtain r s' where run: "?create (request_on 1 Value None) subscription_50_1_2 = Returned r s'"
    and good: "statusCode r = Good"
    using createMonitoredItem_validation_order
      [where ext = externals_0 and addressSpace = address_space_0
         and request = "request_on 1 Value None" and node = variable_node and ts = Both
         and s = subscription_50_1_2] v5 n5 a5
    by blast
  have "monitoredItemId r = 1 \<and> monitoredItemIdCounter s' = 1"
    using createMonitoredItem_validation_order
      [where ext = externals_0 and addressSpace = address_space_0
         and request = "request_on 1 Value None" and ts = Both
         and s = subscription_50_1_2 and r = r and s' = s'] run good c5
    by simp
  with run good r1 r2 r3 r4 show ?thesis by blast
qed

end
